theory Spec2Isabelle
  imports Complex_Main
begin

section \<open>JavaScript values, the environment and effects\<close>

text \<open>
  A thrown value is either an \<open>Error\<close> object carrying a message or some other value;
  the handlers of the source read it through
  \<^verbatim>\<open>error instanceof Error ? error.message : 'Unknown error'\<close>.
\<close>

datatype exn = Error string | Thrown

definition errorMessage :: "exn \<Rightarrow> string" where
  "errorMessage e = (case e of Error m \<Rightarrow> m | Thrown \<Rightarrow> ''Unknown error'')"

subsection \<open>Numbers\<close>

text \<open>
  A JavaScript number is an IEEE 754 double: a finite value, given here as the real it
  denotes, one of the two infinities, or NaN. The two zeros are identified; they differ
  only as divisors, and the code divides by the constants \<open>1e18\<close> and \<open>100\<close> alone
  (both are doubles). Every result of an operation is rounded; a number that comes from
  outside (a quoted price, the configured limit, an entry of the ledger a call starts
  from) is any value of this type. \<open>bigint\<close> values and basis points are integers.
\<close>

datatype number = Num real | Infinity | NegInfinity | NaN

text \<open>
  Rounding a real to the nearest double, ties to even: 53 significant bits, the exponent
  of the leading bit no lower than -1022 (below it the spacing stays that of the
  subnormals), and an infinity when the rounded value reaches \<open>2^1024\<close>.
  \<open>binade a\<close> is the exponent of the leading bit of a positive \<open>a\<close>.
\<close>

fun bitLength :: "nat \<Rightarrow> int" where
  "bitLength n = (if n = 0 then 0 else 1 + bitLength (n div 2))"

declare bitLength.simps [simp del]

definition binade :: "real \<Rightarrow> int" where
  "binade a =
     (if 1 \<le> a then bitLength (nat \<lfloor>a\<rfloor>) - 1 else - bitLength (nat (\<lceil>1 / a\<rceil> - 1)))"

definition pow2 :: "int \<Rightarrow> real" where
  "pow2 e = (if 0 \<le> e then 2 ^ nat e else 1 / 2 ^ nat (- e))"

definition roundTiesToEven :: "real \<Rightarrow> int" where
  "roundTiesToEven y =
     (let f = \<lfloor>y\<rfloor>; d = y - of_int f
      in if d < 1 / 2 then f else if 1 / 2 < d then f + 1 else if even f then f else f + 1)"

definition fl :: "real \<Rightarrow> number" where
  "fl x =
     (if x = 0 then Num 0
      else
        let e = max (binade \<bar>x\<bar>) (- 1022);
            q = pow2 (e - 52);
            y = of_int (roundTiesToEven (x / q)) * q
        in if 1024 \<le> binade \<bar>y\<bar> then (if 0 < x then Infinity else NegInfinity) else Num y)"

text \<open>\<open>a + b\<close> on numbers.\<close>

fun js_add :: "number \<Rightarrow> number \<Rightarrow> number" where
  "js_add (Num a) (Num b) = fl (a + b)"
| "js_add NaN y = NaN"
| "js_add x NaN = NaN"
| "js_add Infinity NegInfinity = NaN"
| "js_add NegInfinity Infinity = NaN"
| "js_add Infinity y = Infinity"
| "js_add NegInfinity y = NegInfinity"
| "js_add (Num a) y = y"

text \<open>\<open>a * b\<close> on numbers: an infinity times zero is NaN, otherwise the signs multiply.\<close>

fun signOf :: "number \<Rightarrow> int" where
  "signOf (Num a) = (if a = 0 then 0 else if 0 < a then 1 else - 1)"
| "signOf Infinity = 1"
| "signOf NegInfinity = - 1"
| "signOf NaN = 0"

fun js_mul :: "number \<Rightarrow> number \<Rightarrow> number" where
  "js_mul (Num a) (Num b) = fl (a * b)"
| "js_mul NaN y = NaN"
| "js_mul x NaN = NaN"
| "js_mul x y =
     (if signOf x * signOf y = 0 then NaN
      else if 0 < signOf x * signOf y then Infinity else NegInfinity)"

text \<open>\<open>a / c\<close> for a finite, non-zero constant \<open>c\<close>.\<close>

fun js_div :: "number \<Rightarrow> real \<Rightarrow> number" where
  "js_div (Num a) c = fl (a / c)"
| "js_div NaN c = NaN"
| "js_div Infinity c = (if 0 < c then Infinity else NegInfinity)"
| "js_div NegInfinity c = (if 0 < c then NegInfinity else Infinity)"

text \<open>\<open>a > b\<close> on numbers: false whenever NaN is involved.\<close>

fun js_gt :: "number \<Rightarrow> number \<Rightarrow> bool" where
  "js_gt (Num a) (Num b) = (b < a)"
| "js_gt NaN y = False"
| "js_gt x NaN = False"
| "js_gt Infinity Infinity = False"
| "js_gt Infinity y = True"
| "js_gt x NegInfinity = (x \<noteq> NegInfinity)"
| "js_gt x y = False"

text \<open>The numbers that \<open>||\<close> passes over: zero and NaN.\<close>

fun falsyNumber :: "number \<Rightarrow> bool" where
  "falsyNumber (Num a) = (a = 0)"
| "falsyNumber NaN = True"
| "falsyNumber x = False"

text \<open>\<open>Number(b)\<close> for a \<open>bigint\<close> \<open>b\<close>.\<close>

definition Number :: "int \<Rightarrow> number" where
  "Number b = fl (of_int b)"

record TokenPrice =
  usd :: number

record DailyVolume =
  date :: string
  volume :: number

text \<open>
  The argument of \<open>exactInputSingle\<close>: tokenIn, tokenOut, fee, recipient, deadline,
  amountIn, amountOutMinimum, sqrtPriceLimitX96 (the field names are those of
  \<open>swapParams\<close> in \<open>executeSwap\<close>).
\<close>

datatype ExactInputSingleParams =
  ExactInputSingleParams string string int string int int (amountOutMinimum: int) int

record log =
  topics :: "string list"
  data :: string

record receipt =
  hash :: string
  receipt_gasUsed :: "int option"
  logs :: "log list"

text \<open>
  Every request that leaves the process is recorded, in order, so that a statement about
  which collaborators a call has reached can be made at all.
\<close>

datatype call =
    WhitelistQuery string
  | PriceQuery "string list"
  | LitConnect
  | PkpInit
  | GetAddress
  | DecimalsQuery string
  | BalanceQuery string string
  | ApproveTx string string int
  | SwapTx string ExactInputSingleParams

text \<open>
  The mutable state: the module-level \<open>dailyVolumeTracker\<close> map and the record of
  requests.
\<close>

record state =
  dailyVolumeTracker :: "string \<rightharpoonup> DailyVolume"
  calls :: "call list"

text \<open>
  Everything a call reads from outside: the process environment (a variable is \<open>None\<close>
  when unset; the two numeric limits are given as parsed by \<open>parseFloat\<close> and
  \<open>parseInt\<close>, \<open>None\<close> when the variable is unset or empty so that the default
  applies), the clock, the built-in \<open>BigInt\<close> on strings (\<open>Inl\<close> is its
  SyntaxError), and the answer of each collaborator (\<open>Inl\<close> when the request throws).
\<close>

record world =
  TOKEN_WHITELIST_CONTRACT :: "string option"
  MAX_DAILY_VOLUME_USD :: "number option"
  MAX_SLIPPAGE_BPS :: "int option"
  UNISWAP_V3_ROUTER :: "string option"
  LIT_PKP_PUBLIC_KEY :: "string option"
  toISOString :: string
  Date_now :: int
  BigInt :: "string \<Rightarrow> exn + int"
  isWhitelisted :: "string \<Rightarrow> exn + bool"
  axios_get :: "string list \<Rightarrow> exn + (string \<rightharpoonup> TokenPrice)"
  litNodeClient_connect :: "exn + unit"
  pkpWallet_init :: "exn + unit"
  pkpWallet_getAddress :: "exn + string"
  erc20_decimals :: "string \<Rightarrow> exn + nat"
  erc20_balanceOf :: "string \<Rightarrow> string \<Rightarrow> exn + int"
  erc20_approve :: "string \<Rightarrow> string \<Rightarrow> int \<Rightarrow> exn + string"
  exactInputSingle :: "string \<Rightarrow> ExactInputSingleParams \<Rightarrow> exn + receipt"

text \<open>
  A computation runs on the state and either returns a value or throws; the state it
  leaves behind is kept in both cases.
\<close>

type_synonym 'a io = "state \<Rightarrow> (exn + 'a) \<times> state"

definition ret :: "'a \<Rightarrow> 'a io" where
  "ret x = (\<lambda>s. (Inr x, s))"

definition throw :: "exn \<Rightarrow> 'a io" where
  "throw e = (\<lambda>s. (Inl e, s))"

definition await :: "'a io \<Rightarrow> ('a \<Rightarrow> 'b io) \<Rightarrow> 'b io" where
  "await m f = (\<lambda>s. case m s of (Inl e, s') \<Rightarrow> (Inl e, s') | (Inr x, s') \<Rightarrow> f x s')"

definition try_catch :: "'a io \<Rightarrow> (exn \<Rightarrow> 'a io) \<Rightarrow> 'a io" where
  "try_catch m h = (\<lambda>s. case m s of (Inl e, s') \<Rightarrow> h e s' | (Inr x, s') \<Rightarrow> (Inr x, s'))"

definition request :: "call \<Rightarrow> exn + 'a \<Rightarrow> 'a io" where
  "request c outcome = (\<lambda>s. (outcome, s\<lparr>calls := calls s @ [c]\<rparr>))"

text \<open>\<open>Promise.all\<close> of two requests: both are issued, and it rejects when one does.\<close>

definition promise_all2 :: "'a io \<Rightarrow> 'b io \<Rightarrow> ('a \<times> 'b) io" where
  "promise_all2 m1 m2 =
     (\<lambda>s. case m1 s of (r1, s1) \<Rightarrow> (case m2 s1 of (r2, s2) \<Rightarrow>
        ((case r1 of Inl e \<Rightarrow> Inl e
          | Inr a \<Rightarrow> (case r2 of Inl e \<Rightarrow> Inl e | Inr b \<Rightarrow> Inr (a, b))), s2)))"

text \<open>\<open>!x\<close> on an environment variable: unset or the empty string.\<close>

definition falsy :: "string option \<Rightarrow> bool" where
  "falsy v = (case v of None \<Rightarrow> True | Some x \<Rightarrow> x = [])"

text \<open>\<open>String.prototype.toLowerCase\<close> on ASCII text.\<close>

definition lowerChar :: "char \<Rightarrow> char" where
  "lowerChar c =
     (case map_of (zip ''ABCDEFGHIJKLMNOPQRSTUVWXYZ'' ''abcdefghijklmnopqrstuvwxyz'') c of
        None \<Rightarrow> c
      | Some l \<Rightarrow> l)"

definition toLowerCase :: "string \<Rightarrow> string" where
  "toLowerCase x = map lowerChar x"

text \<open>\<open>new Date().toISOString().split('T')[0]\<close>\<close>

definition today :: "world \<Rightarrow> string" where
  "today w = takeWhile (\<lambda>c. c \<noteq> CHR ''T'') (toISOString w)"

section \<open>The trading guardrails policy\<close>

text \<open>
  \<open>TradingParams\<close> and \<open>SwapParams\<close> share their first four fields; the shared part is
  a record of its own and each interface extends it.
\<close>

record TradeFields =
  tokenIn :: string
  tokenOut :: string
  amountIn :: string
  slippageBps :: int

record TradingParams = TradeFields +
  walletAddress :: string

text \<open>
  The \<open>details\<close> payloads, one constructor per shape of object literal in the source:
  \<open>{requestedSlippage, maxAllowed}\<close>, \<open>{requestedSlippage, minimum}\<close>,
  \<open>{tokenIn, tokenOut}\<close>, \<open>{currentVolume, tradeValue, newTotal, limit}\<close>,
  \<open>{amountIn}\<close>, \<open>{error}\<close> and the payload of a passed validation
  \<open>{whitelistValidated: true, slippageValidated, volumeValidated, tradeValueUsd, timestamp}\<close>.
\<close>

datatype details =
    SlippageMax int int
  | SlippageMin int int
  | TokenPair string string
  | VolumeDetails (currentVolume: number) (tradeValue: number) (newTotal: number)
      (limit: number)
  | AmountDetails string
  | ErrorDetails string
  | Validated "details option" "details option" (tradeValueUsd: number) string

record PolicyValidationResult =
  isValid :: bool
  reason :: "string option"
  details :: "details option"

definition validateTokenWhitelist :: "world \<Rightarrow> string \<Rightarrow> string \<Rightarrow> bool io" where
  "validateTokenWhitelist w tIn tOut =
     try_catch
       (if falsy (TOKEN_WHITELIST_CONTRACT w) then ret True
        else await
          (promise_all2
             (request (WhitelistQuery tIn) (isWhitelisted w tIn))
             (request (WhitelistQuery tOut) (isWhitelisted w tOut)))
          (\<lambda>(tokenInWhitelisted, tokenOutWhitelisted).
             ret (tokenInWhitelisted \<and> tokenOutWhitelisted)))
       (\<lambda>error. ret False)"

definition defaultPrices :: "string list \<Rightarrow> (string \<rightharpoonup> TokenPrice)" where
  "defaultPrices tokenAddresses =
     foldl (\<lambda>m address. m(toLowerCase address \<mapsto> \<lparr>usd = Num 1\<rparr>)) Map.empty
       tokenAddresses"

definition getTokenPrices :: "world \<Rightarrow> string list \<Rightarrow> (string \<rightharpoonup> TokenPrice) io" where
  "getTokenPrices w tokenAddresses =
     try_catch
       (request (PriceQuery tokenAddresses) (axios_get w tokenAddresses))
       (\<lambda>error. ret (defaultPrices tokenAddresses))"

definition trackerKey :: "string \<Rightarrow> string \<Rightarrow> string" where
  "trackerKey wallet day = wallet @ ''-'' @ day"

text \<open>\<open>parseFloat(process.env.MAX_DAILY_VOLUME_USD || '10000')\<close>\<close>

definition maxDailyVolumeUsd :: "world \<Rightarrow> number" where
  "maxDailyVolumeUsd w =
     (case MAX_DAILY_VOLUME_USD w of None \<Rightarrow> Num 10000 | Some m \<Rightarrow> m)"

definition validateDailyVolumeLimit ::
  "world \<Rightarrow> string \<Rightarrow> number \<Rightarrow> state \<Rightarrow> PolicyValidationResult \<times> state" where
  "validateDailyVolumeLimit w wallet value s =
     (let day = today w;
          key = trackerKey wallet day;
          currentData = (case dailyVolumeTracker s key of
                           None \<Rightarrow> \<lparr>date = day, volume = Num 0\<rparr> | Some d \<Rightarrow> d);
          newTotalVolume = js_add (volume currentData) value
      in if js_gt newTotalVolume (maxDailyVolumeUsd w)
         then (\<lparr>isValid = False, reason = Some ''Daily volume limit exceeded'',
                details = Some (VolumeDetails (volume currentData) value newTotalVolume
                                  (maxDailyVolumeUsd w))\<rparr>, s)
         else (\<lparr>isValid = True, reason = None,
                details = Some (VolumeDetails (volume currentData) value newTotalVolume
                                  (maxDailyVolumeUsd w))\<rparr>,
               s\<lparr>dailyVolumeTracker :=
                   (dailyVolumeTracker s)(key \<mapsto> \<lparr>date = day, volume = newTotalVolume\<rparr>)\<rparr>))"

text \<open>\<open>parseInt(process.env.MAX_SLIPPAGE_BPS || '300')\<close>\<close>

definition maxSlippageBps :: "world \<Rightarrow> int" where
  "maxSlippageBps w = (case MAX_SLIPPAGE_BPS w of None \<Rightarrow> 300 | Some m \<Rightarrow> m)"

definition validateSlippage :: "world \<Rightarrow> int \<Rightarrow> PolicyValidationResult" where
  "validateSlippage w bps =
     (if bps > maxSlippageBps w
      then \<lparr>isValid = False, reason = Some ''Slippage exceeds maximum allowed'',
            details = Some (SlippageMax bps (maxSlippageBps w))\<rparr>
      else if bps < 1
      then \<lparr>isValid = False, reason = Some ''Slippage too low (unrealistic)'',
            details = Some (SlippageMin bps 1)\<rparr>
      else \<lparr>isValid = True, reason = None,
            details = Some (SlippageMax bps (maxSlippageBps w))\<rparr>)"

text \<open>\<open>tokenPrices[tokenIn.toLowerCase()]?.usd || 1\<close>\<close>

definition tokenInPrice :: "(string \<rightharpoonup> TokenPrice) \<Rightarrow> string \<Rightarrow> number" where
  "tokenInPrice tokenPrices tIn =
     (case tokenPrices (toLowerCase tIn) of
        None \<Rightarrow> Num 1
      | Some p \<Rightarrow> if falsyNumber (usd p) then Num 1 else usd p)"

text \<open>\<open>Number(amountInBigInt) * tokenInPrice / 1e18\<close>\<close>

definition tradeValueOf :: "int \<Rightarrow> number \<Rightarrow> number" where
  "tradeValueOf amount price = js_div (js_mul (Number amount) price) (10 ^ 18)"

text \<open>The body of the \<open>try\<close> block of \<open>validateTradingGuardrails\<close>.\<close>

definition validateTradingGuardrails_try ::
  "world \<Rightarrow> TradingParams \<Rightarrow> PolicyValidationResult io" where
  "validateTradingGuardrails_try w p =
     (let slippageValidation = validateSlippage w (slippageBps p) in
      if \<not> isValid slippageValidation then ret slippageValidation
      else
        await (validateTokenWhitelist w (tokenIn p) (tokenOut p)) (\<lambda>whitelisted.
        if \<not> whitelisted
        then ret \<lparr>isValid = False, reason = Some ''One or both tokens not whitelisted'',
                  details = Some (TokenPair (tokenIn p) (tokenOut p))\<rparr>
        else
          await (getTokenPrices w [tokenIn p, tokenOut p]) (\<lambda>tokenPrices.
          await (\<lambda>s. (BigInt w (amountIn p), s)) (\<lambda>amountInBigInt.
          let value = tradeValueOf amountInBigInt (tokenInPrice tokenPrices (tokenIn p)) in
          await (\<lambda>s. case validateDailyVolumeLimit w (walletAddress p) value s of
                        (r, s') \<Rightarrow> (Inr r, s')) (\<lambda>volumeValidation.
          if \<not> isValid volumeValidation then ret volumeValidation
          else if amountInBigInt \<le> 0
          then ret \<lparr>isValid = False, reason = Some ''Invalid trade amount'',
                    details = Some (AmountDetails (amountIn p))\<rparr>
          else if tokenIn p = tokenOut p
          then ret \<lparr>isValid = False, reason = Some ''Cannot swap token to itself'',
                    details = Some (TokenPair (tokenIn p) (tokenOut p))\<rparr>
          else ret \<lparr>isValid = True, reason = None,
                    details = Some (Validated (details slippageValidation)
                                      (details volumeValidation) value (toISOString w))\<rparr>)))))"

definition validateTradingGuardrails ::
  "world \<Rightarrow> TradingParams \<Rightarrow> PolicyValidationResult io" where
  "validateTradingGuardrails w p =
     try_catch (validateTradingGuardrails_try w p)
       (\<lambda>error. ret \<lparr>isValid = False, reason = Some ''Validation error occurred'',
                      details = Some (ErrorDetails (errorMessage error))\<rparr>)"

section \<open>The swap executor\<close>

record SwapParams = TradeFields +
  recipient :: string

record SwapResult =
  success :: bool
  txHash :: "string option"
  amountOut :: "string option"
  gasUsed :: "string option"
  effectiveSlippage :: "number option"
  error :: "string option"

text \<open>\<open>toString\<close> of a \<open>bigint\<close>: decimal digits, with a minus sign when negative.\<close>

fun digitsOf :: "nat \<Rightarrow> string" where
  "digitsOf n =
     (if n < 10 then [''0123456789'' ! n]
      else digitsOf (n div 10) @ [''0123456789'' ! (n mod 10)])"

definition toString :: "int \<Rightarrow> string" where
  "toString k = (if k < 0 then CHR ''-'' # digitsOf (nat (- k)) else digitsOf (nat k))"

text \<open>
  Division of \<open>bigint\<close> values rounds towards zero; a zero divisor throws a RangeError,
  which the caller of this function writes out where the divisor is not a constant.
\<close>

definition bigint_div :: "int \<Rightarrow> int \<Rightarrow> int" where
  "bigint_div a b = sgn a * sgn b * (\<bar>a\<bar> div \<bar>b\<bar>)"

text \<open>\<open>ethers.id('Transfer(address,address,uint256)')\<close>, the topic of an ERC-20 transfer.\<close>

definition TRANSFER_TOPIC :: string where
  "TRANSFER_TOPIC = ''0xddf252ad1be2c89b69c2b068fc378daa952ba7f163c4a11628f55a4df523b3ef''"

definition initializeLitWallet :: "world \<Rightarrow> unit io" where
  "initializeLitWallet w =
     try_catch
       (await (request LitConnect (litNodeClient_connect w)) (\<lambda>_.
        if falsy (LIT_PKP_PUBLIC_KEY w) then throw (Error ''LIT_PKP_PUBLIC_KEY not configured'')
        else
          await (request PkpInit (pkpWallet_init w)) (\<lambda>_.
          await (request GetAddress (pkpWallet_getAddress w)) (\<lambda>pkpAddress.
          ret ()))))
       (\<lambda>error. throw (Error (''Lit wallet initialization failed: '' @ errorMessage error)))"

text \<open>
  \<open>getTokenInfo\<close> returns the balance as the decimal string of the \<open>bigint\<close> the
  contract answered and \<open>executeSwap\<close> reads it back with \<open>BigInt\<close>; the model keeps
  the integer and renders it where the string is used.
\<close>

record TokenInfo =
  decimals :: nat
  balance :: int

definition getTokenInfo :: "world \<Rightarrow> string \<Rightarrow> string \<Rightarrow> TokenInfo io" where
  "getTokenInfo w tokenAddress wallet =
     await
       (promise_all2
          (request (DecimalsQuery tokenAddress) (erc20_decimals w tokenAddress))
          (request (BalanceQuery tokenAddress wallet) (erc20_balanceOf w tokenAddress wallet)))
       (\<lambda>(d, b). ret \<lparr>decimals = d, balance = b\<rparr>)"

definition calculateMinAmountOut :: "int \<Rightarrow> int \<Rightarrow> int" where
  "calculateMinAmountOut expectedAmountOut bps =
     (let slippageMultiplier = 10000 - bps
      in bigint_div (expectedAmountOut * slippageMultiplier) 10000)"

text \<open>
  \<open>receipt.logs.find(log => log.topics[0] === ethers.id(...))?.data || '0'\<close>: the data of
  the first log whose first topic is the transfer topic, and \<open>'0'\<close> when there is none
  or its data is the empty string.
\<close>

definition isTransferLog :: "log \<Rightarrow> bool" where
  "isTransferLog l = (case topics l of [] \<Rightarrow> False | t # _ \<Rightarrow> t = TRANSFER_TOPIC)"

definition actualAmountOutOf :: "receipt \<Rightarrow> string" where
  "actualAmountOutOf r =
     (case find isTransferLog (logs r) of
        None \<Rightarrow> ''0''
      | Some l \<Rightarrow> if data l = [] then ''0'' else data l)"

text \<open>The result \<open>{success: false, error: msg}\<close>; the fields it leaves out are absent.\<close>

definition failure :: "string \<Rightarrow> SwapResult" where
  "failure msg = \<lparr>success = False, txHash = None, amountOut = None, gasUsed = None,
                   effectiveSlippage = None, error = Some msg\<rparr>"

text \<open>The body of the \<open>try\<close> block of \<open>executeSwap\<close>.\<close>

definition executeSwap_try :: "world \<Rightarrow> SwapParams \<Rightarrow> SwapResult io" where
  "executeSwap_try w p =
     await (initializeLitWallet w) (\<lambda>pkpWallet.
     await (request GetAddress (pkpWallet_getAddress w)) (\<lambda>wallet.
     await (validateTradingGuardrails w
              \<lparr>tokenIn = tokenIn p, tokenOut = tokenOut p, amountIn = amountIn p,
               slippageBps = slippageBps p, walletAddress = wallet\<rparr>) (\<lambda>policyValidation.
     if \<not> isValid policyValidation
     then ret (failure (''Policy validation failed: '' @
                 (case reason policyValidation of None \<Rightarrow> ''undefined'' | Some r \<Rightarrow> r)))
     else
       await (getTokenInfo w (tokenIn p) wallet) (\<lambda>tokenInInfo.
       await (\<lambda>s. (BigInt w (amountIn p), s)) (\<lambda>amountInBigInt.
       if balance tokenInInfo < amountInBigInt
       then ret (failure (''Insufficient balance. Required: '' @ amountIn p @
                   '', Available: '' @ toString (balance tokenInInfo)))
       else if falsy (UNISWAP_V3_ROUTER w)
       then throw (Error ''UNISWAP_V3_ROUTER not configured'')
       else
         let routerAddress = the (UNISWAP_V3_ROUTER w) in
         await (request (ApproveTx (tokenIn p) routerAddress amountInBigInt)
                  (erc20_approve w (tokenIn p) routerAddress amountInBigInt)) (\<lambda>approveTx.
         let deadline = Date_now w div 1000 + 600;
             fee = 3000;
             estimatedAmountOut = bigint_div (amountInBigInt * 98) 100;
             minOut = calculateMinAmountOut estimatedAmountOut (slippageBps p);
             swapParams = ExactInputSingleParams (tokenIn p) (tokenOut p) fee (recipient p)
                            deadline amountInBigInt minOut 0
         in
         await (request (SwapTx routerAddress swapParams)
                  (exactInputSingle w routerAddress swapParams)) (\<lambda>receipt.
         let actualAmountOut = actualAmountOutOf receipt in
         await (if actualAmountOut \<noteq> ''0''
                then await (\<lambda>s. (BigInt w actualAmountOut, s)) (\<lambda>actual.
                     if estimatedAmountOut = 0 then throw (Error ''Division by zero'')
                     else ret (js_div (Number (bigint_div
                                 ((estimatedAmountOut - actual) * 10000) estimatedAmountOut))
                               100))
                else ret (Num 0)) (\<lambda>slippage.
         ret \<lparr>success = True, txHash = Some (hash receipt),
              amountOut = Some actualAmountOut,
              gasUsed = map_option toString (receipt_gasUsed receipt),
              effectiveSlippage = Some slippage, error = None\<rparr>))))))))"

definition executeSwap :: "world \<Rightarrow> SwapParams \<Rightarrow> SwapResult io" where
  "executeSwap w p =
     try_catch (executeSwap_try w p) (\<lambda>error. ret (failure (errorMessage error)))"

section \<open>Notions used in the statements\<close>

text \<open>The running total the ledger holds for a wallet on the current day (0 when absent).\<close>

definition runningTotal :: "world \<Rightarrow> string \<Rightarrow> state \<Rightarrow> number" where
  "runningTotal w wallet s =
     (case dailyVolumeTracker s (trackerKey wallet (today w)) of
        None \<Rightarrow> Num 0
      | Some d \<Rightarrow> volume d)"

text \<open>What \<open>validateTokenWhitelist\<close> answers and which requests it issues.\<close>

definition whitelistVerdict :: "world \<Rightarrow> string \<Rightarrow> string \<Rightarrow> bool" where
  "whitelistVerdict w tIn tOut =
     (falsy (TOKEN_WHITELIST_CONTRACT w) \<or>
      (isWhitelisted w tIn = Inr True \<and> isWhitelisted w tOut = Inr True))"

definition whitelistCalls :: "world \<Rightarrow> string \<Rightarrow> string \<Rightarrow> call list" where
  "whitelistCalls w tIn tOut =
     (if falsy (TOKEN_WHITELIST_CONTRACT w) then []
      else [WhitelistQuery tIn, WhitelistQuery tOut])"

text \<open>The price table \<open>getTokenPrices\<close> hands back.\<close>

definition pricesOf :: "world \<Rightarrow> string list \<Rightarrow> (string \<rightharpoonup> TokenPrice)" where
  "pricesOf w ts = (case axios_get w ts of Inl e \<Rightarrow> defaultPrices ts | Inr m \<Rightarrow> m)"

text \<open>The transactions, approvals and swaps, among the requests made so far.\<close>

fun isTransaction :: "call \<Rightarrow> bool" where
  "isTransaction (ApproveTx token spender amount) = True"
| "isTransaction (SwapTx router sp) = True"
| "isTransaction c = False"

definition transactions :: "state \<Rightarrow> call list" where
  "transactions s = filter isTransaction (calls s)"

text \<open>
  The minimum output as the specification words it: the expected output is
  \<open>amountIn * 98 / 100\<close>, and \<open>minOut = expected * (10000 - slippageBps) / 10000\<close>,
  each division an integer division.
\<close>

definition specMinOut :: "int \<Rightarrow> int \<Rightarrow> int" where
  "specMinOut amount bps =
     (let expected = amount * 98 div 100 in expected * (10000 - bps) div 10000)"

section \<open>Example environments\<close>

text \<open>
  \<open>BigInt\<close> restricted to an optional sign followed by decimal digits (and the empty
  string, which is \<open>0n\<close>); every other text is rejected here. It stands for the
  built-in in the examples below, whose amounts are plain decimal strings.
\<close>

definition digitOf :: "char \<Rightarrow> nat option" where
  "digitOf c = map_of (zip ''0123456789'' [0, 1, 2, 3, 4, 5, 6, 7, 8, 9]) c"

fun decimalDigits :: "nat \<Rightarrow> string \<Rightarrow> nat option" where
  "decimalDigits acc [] = Some acc"
| "decimalDigits acc (c # cs) =
     (case digitOf c of None \<Rightarrow> None | Some d \<Rightarrow> decimalDigits (10 * acc + d) cs)"

definition decimalBigInt :: "string \<Rightarrow> exn + int" where
  "decimalBigInt x =
     (let failed = Inl (Error (''Cannot convert '' @ x @ '' to a BigInt'')) in
      case x of
        [] \<Rightarrow> Inr 0
      | c # cs \<Rightarrow>
          if c = CHR ''-'' \<or> c = CHR ''+''
          then (if cs = [] then failed
                else case decimalDigits 0 cs of
                       None \<Rightarrow> failed
                     | Some n \<Rightarrow> Inr (if c = CHR ''-'' then - int n else int n))
          else (case decimalDigits 0 x of None \<Rightarrow> failed | Some n \<Rightarrow> Inr (int n)))"

definition WETH :: string where
  "WETH = ''0xC02aaA39b223FE8D0A0e5C4F27eAD9083C756Cc2''"

definition USDC :: string where
  "USDC = ''0xA0b86991c6218b36c1d19D4a2e9Eb0cE3606eB48''"

definition WALLET :: string where
  "WALLET = ''0x1111111111111111111111111111111111111111''"

definition ROUTER :: string where
  "ROUTER = ''0xE592427A0AEce92De3Edee1F18E0157C05861564''"

definition OTHER_WALLET :: string where
  "OTHER_WALLET = ''0x2222222222222222222222222222222222222222''"

text \<open>
  No whitelist contract, default limits, WETH quoted at 2000 USD, every collaborator
  answering.
\<close>

definition exampleWorld :: world where
  "exampleWorld =
     \<lparr>TOKEN_WHITELIST_CONTRACT = None, MAX_DAILY_VOLUME_USD = None, MAX_SLIPPAGE_BPS = None,
      UNISWAP_V3_ROUTER = Some ROUTER,
      LIT_PKP_PUBLIC_KEY = Some ''0x04aa'',
      toISOString = ''2024-05-01T12:00:00.000Z'', Date_now = 1714564800000,
      BigInt = decimalBigInt,
      isWhitelisted = (\<lambda>t. Inr True),
      axios_get = (\<lambda>ts. Inr [''0xc02aaa39b223fe8d0a0e5c4f27ead9083c756cc2'' \<mapsto> \<lparr>usd = Num 2000\<rparr>]),
      litNodeClient_connect = Inr (), pkpWallet_init = Inr (),
      pkpWallet_getAddress = Inr WALLET,
      erc20_decimals = (\<lambda>t. Inr 18), erc20_balanceOf = (\<lambda>t a. Inr (10 ^ 20)),
      erc20_approve = (\<lambda>t sp a. Inr ''0xa1''),
      exactInputSingle =
        (\<lambda>r sp. Inr \<lparr>hash = ''0xb2'', receipt_gasUsed = Some 150000, logs = []\<rparr>)\<rparr>"

definition whitelistedWorld :: world where
  "whitelistedWorld = exampleWorld\<lparr>TOKEN_WHITELIST_CONTRACT := Some ''0x3333''\<rparr>"

definition failingWhitelistWorld :: world where
  "failingWhitelistWorld =
     exampleWorld\<lparr>TOKEN_WHITELIST_CONTRACT := Some ''0x3333'',
                   isWhitelisted := (\<lambda>t. Inl (Error ''could not detect network''))\<rparr>"

definition unlistedWorld :: world where
  "unlistedWorld = exampleWorld\<lparr>isWhitelisted := (\<lambda>t. Inr False)\<rparr>"

definition unquotedWorld :: world where
  "unquotedWorld = exampleWorld\<lparr>axios_get := (\<lambda>ts. Inr Map.empty)\<rparr>"

definition emptyState :: state where
  "emptyState = \<lparr>dailyVolumeTracker = Map.empty, calls = []\<rparr>"

definition ledger9000 :: state where
  "ledger9000 =
     \<lparr>dailyVolumeTracker =
        [trackerKey WALLET ''2024-05-01'' \<mapsto> \<lparr>date = ''2024-05-01'', volume = Num 9000\<rparr>],
      calls = []\<rparr>"

definition ledger10000 :: state where
  "ledger10000 =
     \<lparr>dailyVolumeTracker =
        [trackerKey WALLET ''2024-05-01'' \<mapsto> \<lparr>date = ''2024-05-01'', volume = Num 10000\<rparr>],
      calls = []\<rparr>"

definition ledgerOthers :: state where
  "ledgerOthers =
     \<lparr>dailyVolumeTracker =
        [trackerKey WALLET ''2024-04-30'' \<mapsto> \<lparr>date = ''2024-04-30'', volume = Num 7000\<rparr>,
         trackerKey OTHER_WALLET ''2024-05-01'' \<mapsto>
           \<lparr>date = ''2024-05-01'', volume = Num 1234\<rparr>],
      calls = []\<rparr>"

definition oneEther :: TradingParams where
  "oneEther = \<lparr>tokenIn = WETH, tokenOut = USDC, amountIn = ''1000000000000000000'',
                slippageBps = 50, walletAddress = WALLET\<rparr>"

text \<open>At 2000 USD for one WETH: a quarter of an ether is 500 USD, three tenths 600 USD.\<close>

definition quarterEther :: TradingParams where
  "quarterEther = \<lparr>tokenIn = WETH, tokenOut = USDC, amountIn = ''250000000000000000'',
                    slippageBps = 50, walletAddress = WALLET\<rparr>"

definition threeTenthsEther :: TradingParams where
  "threeTenthsEther = \<lparr>tokenIn = WETH, tokenOut = USDC, amountIn = ''300000000000000000'',
                        slippageBps = 50, walletAddress = WALLET\<rparr>"

definition oneWei :: TradingParams where
  "oneWei = \<lparr>tokenIn = WETH, tokenOut = USDC, amountIn = ''1'',
              slippageBps = 50, walletAddress = WALLET\<rparr>"

definition selfSwap :: TradingParams where
  "selfSwap = \<lparr>tokenIn = WETH, tokenOut = WETH, amountIn = ''1000000000000000000'',
                slippageBps = 50, walletAddress = WALLET\<rparr>"

definition zeroAmount :: TradingParams where
  "zeroAmount = \<lparr>tokenIn = WETH, tokenOut = USDC, amountIn = ''0'',
                  slippageBps = 50, walletAddress = WALLET\<rparr>"

definition negativeAmount :: TradingParams where
  "negativeAmount = \<lparr>tokenIn = WETH, tokenOut = USDC, amountIn = ''-5000000000000000000'',
                      slippageBps = 50, walletAddress = WALLET\<rparr>"

definition highSlippage :: TradingParams where
  "highSlippage = \<lparr>tokenIn = WETH, tokenOut = USDC, amountIn = ''1000000000000000000'',
                    slippageBps = 500, walletAddress = WALLET\<rparr>"

definition oneEtherSwap :: SwapParams where
  "oneEtherSwap = \<lparr>tokenIn = WETH, tokenOut = USDC, amountIn = ''1000000000000000000'',
                    slippageBps = 50, recipient = WALLET\<rparr>"

text \<open>The swap \<open>executeSwap\<close> submits for \<open>oneEtherSwap\<close> in these environments.\<close>

definition oneEtherSwapTx :: ExactInputSingleParams where
  "oneEtherSwapTx =
     ExactInputSingleParams WETH USDC 3000 WALLET 1714565400 1000000000000000000
       975100000000000000 0"

definition approvalLog :: log where
  "approvalLog =
     \<lparr>topics = [''0x8c5be1e5ebec7d5bd14f71427d1e84f3dd0314c0f7b2291e5b200ac8c7c3b925''],
      data = ''0x01''\<rparr>"

text \<open>The router confirms the swap; the receipt holds one log, an ERC-20 approval.\<close>

definition approvalOnlyWorld :: world where
  "approvalOnlyWorld =
     exampleWorld\<lparr>exactInputSingle :=
       (\<lambda>r sp. Inr \<lparr>hash = ''0xb2'', receipt_gasUsed = Some 150000,
                       logs = [approvalLog]\<rparr>)\<rparr>"

definition zeroQuoteWorld :: world where
  "zeroQuoteWorld =
     exampleWorld\<lparr>axios_get :=
       (\<lambda>ts. Inr [''0xc02aaa39b223fe8d0a0e5c4f27ead9083c756cc2'' \<mapsto> \<lparr>usd = Num 0\<rparr>])\<rparr>"

definition notANumber :: TradingParams where
  "notANumber = \<lparr>tokenIn = WETH, tokenOut = USDC, amountIn = ''1.5'',
                  slippageBps = 50, walletAddress = WALLET\<rparr>"

definition noRouterWorld :: world where
  "noRouterWorld = exampleWorld\<lparr>UNISWAP_V3_ROUTER := None\<rparr>"

definition litDownWorld :: world where
  "litDownWorld = exampleWorld\<lparr>litNodeClient_connect := Inl (Error ''connect timeout'')\<rparr>"

definition priceDownWorld :: world where
  "priceDownWorld = exampleWorld\<lparr>axios_get := (\<lambda>ts. Inl (Error ''timeout of 10000ms exceeded''))\<rparr>"

definition approveFailWorld :: world where
  "approveFailWorld =
     exampleWorld\<lparr>erc20_approve := (\<lambda>t sp a. Inl (Error ''transaction reverted''))\<rparr>"

definition swapFailWorld :: world where
  "swapFailWorld =
     exampleWorld\<lparr>exactInputSingle := (\<lambda>r sp. Inl (Error ''Too little received''))\<rparr>"

section \<open>Running the sub-checks\<close>

lemmas example_defs =
  exampleWorld_def whitelistedWorld_def failingWhitelistWorld_def unlistedWorld_def
  unquotedWorld_def emptyState_def ledger9000_def ledgerOthers_def oneEther_def selfSwap_def
  zeroAmount_def negativeAmount_def highSlippage_def WETH_def USDC_def WALLET_def
  OTHER_WALLET_def decimalBigInt_def digitOf_def oneEtherSwap_def ROUTER_def
  approvalOnlyWorld_def noRouterWorld_def litDownWorld_def oneEtherSwapTx_def
  approvalLog_def zeroQuoteWorld_def notANumber_def ledger10000_def quarterEther_def
  threeTenthsEther_def oneWei_def priceDownWorld_def approveFailWorld_def swapFailWorld_def

lemmas model_defs =
  validateTradingGuardrails_def validateTradingGuardrails_try_def try_catch_def await_def
  ret_def throw_def request_def promise_all2_def validateTokenWhitelist_def getTokenPrices_def
  validateSlippage_def maxSlippageBps_def validateDailyVolumeLimit_def maxDailyVolumeUsd_def
  tokenInPrice_def toLowerCase_def lowerChar_def today_def trackerKey_def falsy_def
  defaultPrices_def Let_def

text \<open>The roundings the examples need, each computed once.\<close>

lemmas fl_eval = fl_def binade_def pow2_def roundTiesToEven_def bitLength.simps Let_def

lemma example_roundings:
  "fl 0 = Num 0" "fl 1 = Num 1" "fl 500 = Num 500" "fl 600 = Num 600" "fl 2000 = Num 2000"
  "fl 9000 = Num 9000" "fl 9500 = Num 9500" "fl 10100 = Num 10100"
  "fl (- 1000) = Num (- 1000)"
  by (simp_all add: fl_eval)

lemma example_values:
  "tradeValueOf 1000000000000000000 (Num 2000) = Num 2000"
  "tradeValueOf 1000000000000000000 (Num 1) = Num 1"
  "tradeValueOf 0 (Num 2000) = Num 0"
  "tradeValueOf (- 5000000000000000000) (Num 2000) = Num (- 10000)"
  "tradeValueOf 250000000000000000 (Num 2000) = Num 500"
  "tradeValueOf 300000000000000000 (Num 2000) = Num 600"
  "tradeValueOf 1 (Num 1) = Num (5192296858534828 / 2 ^ 112)"
  by (simp_all add: tradeValueOf_def Number_def fl_eval)

lemma one_wei_absorbed:
  "js_add (Num 10000) (Num (5192296858534828 / 2 ^ 112)) = Num 10000"
  "js_add (Num 10000) (Num (1 / 2 ^ 41)) = Num 10000"
  by (simp_all add: fl_eval)

lemmas example_arith = example_roundings example_values one_wei_absorbed[simplified]

lemma validateTokenWhitelist_run:
  "validateTokenWhitelist w tIn tOut s =
     (Inr (whitelistVerdict w tIn tOut), s\<lparr>calls := calls s @ whitelistCalls w tIn tOut\<rparr>)"
  by (auto simp: validateTokenWhitelist_def whitelistVerdict_def whitelistCalls_def try_catch_def
        ret_def await_def promise_all2_def request_def split: sum.splits prod.splits)

lemma getTokenPrices_run:
  "getTokenPrices w ts s = (Inr (pricesOf w ts), s\<lparr>calls := calls s @ [PriceQuery ts]\<rparr>)"
  by (auto simp: getTokenPrices_def pricesOf_def try_catch_def ret_def request_def
        split: sum.splits)

lemma validateDailyVolumeLimit_calls:
  "validateDailyVolumeLimit w a v s = (r, s') \<Longrightarrow> calls s' = calls s"
  by (auto simp: validateDailyVolumeLimit_def Let_def split: if_splits)

lemma validateDailyVolumeLimit_frame:
  "validateDailyVolumeLimit w a v s = (r, s') \<Longrightarrow> k \<noteq> trackerKey a (today w) \<Longrightarrow>
   dailyVolumeTracker s' k = dailyVolumeTracker s k"
  by (auto simp: validateDailyVolumeLimit_def Let_def split: if_splits)

lemma runningTotal_after:
  assumes "validateDailyVolumeLimit w wallet v s = (r, s')"
  shows "isValid r \<longleftrightarrow>
           \<not> js_gt (js_add (runningTotal w wallet s) v) (maxDailyVolumeUsd w)"
    and "\<not> isValid r \<Longrightarrow> s' = s"
    and "\<not> isValid r \<Longrightarrow> reason r = Some ''Daily volume limit exceeded''"
    and "details r = Some (VolumeDetails (runningTotal w wallet s) v
                       (js_add (runningTotal w wallet s) v) (maxDailyVolumeUsd w))"
    and "isValid r \<Longrightarrow> runningTotal w wallet s' = js_add (runningTotal w wallet s) v"
  using assms
  by (auto simp: validateDailyVolumeLimit_def runningTotal_def Let_def
        split: if_splits option.splits)

lemma runningTotal_calls [simp]: "runningTotal w k (s\<lparr>calls := cs\<rparr>) = runningTotal w k s"
  by (simp add: runningTotal_def)

lemma validateDailyVolumeLimit_ignores_calls:
  "validateDailyVolumeLimit w a v (s\<lparr>calls := cs\<rparr>) =
     (fst (validateDailyVolumeLimit w a v s),
      (snd (validateDailyVolumeLimit w a v s))\<lparr>calls := cs\<rparr>)"
  by (simp add: validateDailyVolumeLimit_def Let_def)

lemma validateDailyVolumeLimit_reason:
  "reason (fst (validateDailyVolumeLimit w a v s)) =
     (if isValid (fst (validateDailyVolumeLimit w a v s)) then None
      else Some ''Daily volume limit exceeded'')"
  by (simp add: validateDailyVolumeLimit_def Let_def)

lemmas guardrails_unfold =
  validateTradingGuardrails_def validateTradingGuardrails_try_def try_catch_def await_def ret_def
  validateTokenWhitelist_run getTokenPrices_run Let_def

lemma guardrails_frame:
  assumes "validateTradingGuardrails w p s = (res, s')"
      and "k \<noteq> trackerKey (walletAddress p) (today w)"
  shows "dailyVolumeTracker s' k = dailyVolumeTracker s k"
  using assms
  by (auto simp: guardrails_unfold split: if_splits sum.splits prod.splits
        dest!: validateDailyVolumeLimit_frame[where k=k])

lemma trackerKey_inj:
  assumes "length D = length D'"
  shows "trackerKey W D = trackerKey W' D' \<longleftrightarrow> W = W' \<and> D = D'"
proof
  assume eq: "trackerKey W D = trackerKey W' D'"
  then have "length (trackerKey W D) = length (trackerKey W' D')" by simp
  with assms have "length W = length W'" by (simp add: trackerKey_def)
  with eq show "W = W' \<and> D = D'" by (simp add: trackerKey_def)
next
  assume "W = W' \<and> D = D'"
  then show "trackerKey W D = trackerKey W' D'" by simp
qed

text \<open>
  The whole of \<open>validateTradingGuardrails\<close> in one equation: which check answers, and the
  state it leaves.
\<close>

lemma guardrails_run:
  "validateTradingGuardrails w p s =
     (let slip = validateSlippage w (slippageBps p);
          s1 = s\<lparr>calls := calls s @ whitelistCalls w (tokenIn p) (tokenOut p)\<rparr>;
          s2 = s1\<lparr>calls := calls s1 @ [PriceQuery [tokenIn p, tokenOut p]]\<rparr>
      in if \<not> isValid slip then (Inr slip, s)
         else if \<not> whitelistVerdict w (tokenIn p) (tokenOut p)
         then (Inr \<lparr>isValid = False, reason = Some ''One or both tokens not whitelisted'',
                    details = Some (TokenPair (tokenIn p) (tokenOut p))\<rparr>, s1)
         else case BigInt w (amountIn p) of
           Inl e \<Rightarrow> (Inr \<lparr>isValid = False, reason = Some ''Validation error occurred'',
                           details = Some (ErrorDetails (errorMessage e))\<rparr>, s2)
         | Inr n \<Rightarrow>
             (let v = tradeValueOf n
                        (tokenInPrice (pricesOf w [tokenIn p, tokenOut p]) (tokenIn p));
                  vol = validateDailyVolumeLimit w (walletAddress p) v s2
              in if \<not> isValid (fst vol) then (Inr (fst vol), snd vol)
                 else if n \<le> 0
                 then (Inr \<lparr>isValid = False, reason = Some ''Invalid trade amount'',
                            details = Some (AmountDetails (amountIn p))\<rparr>, snd vol)
                 else if tokenIn p = tokenOut p
                 then (Inr \<lparr>isValid = False, reason = Some ''Cannot swap token to itself'',
                            details = Some (TokenPair (tokenIn p) (tokenOut p))\<rparr>, snd vol)
                 else (Inr \<lparr>isValid = True, reason = None,
                            details = Some (Validated (details slip) (details (fst vol)) v
                                              (toISOString w))\<rparr>, snd vol)))"
  by (auto simp: guardrails_unfold split: sum.splits prod.splits)

text \<open>
  What each stage of \<open>executeSwap\<close> adds to the transactions submitted so far, and what
  a submitted transaction says about the run that submitted it.
\<close>

lemmas swap_defs =
  executeSwap_def executeSwap_try_def initializeLitWallet_def getTokenInfo_def
  calculateMinAmountOut_def bigint_div_def actualAmountOutOf_def isTransferLog_def
  TRANSFER_TOPIC_def failure_def errorMessage_def toString_def

lemma transactions_request [simp]:
  "transactions (s\<lparr>calls := calls s @ cs\<rparr>) = transactions s @ filter isTransaction cs"
  by (simp add: transactions_def)

lemma in_transactions:
  "SwapTx router sp \<in> set (calls s) \<longleftrightarrow> SwapTx router sp \<in> set (transactions s)"
  "ApproveTx t r n \<in> set (calls s) \<longleftrightarrow> ApproveTx t r n \<in> set (transactions s)"
  by (simp_all add: transactions_def)

lemma validateDailyVolumeLimit_transactions:
  "validateDailyVolumeLimit w a v s = (r, s') \<Longrightarrow>
   transactions s' = transactions s \<and> (\<not> isValid r \<longrightarrow> reason r \<noteq> None)"
  by (auto simp: validateDailyVolumeLimit_def transactions_def Let_def split: if_splits)

lemma guardrails_facts:
  assumes "validateTradingGuardrails w p s = (res, s')"
  shows "transactions s' = transactions s \<and>
         (\<exists>r. res = Inr r \<and> (\<not> isValid r \<longrightarrow> reason r \<noteq> None) \<and>
              (isValid r \<longrightarrow> (\<exists>n. BigInt w (amountIn p) = Inr n \<and> 0 < n)))"
  using assms
  by (auto simp: guardrails_unfold whitelistCalls_def validateSlippage_def
        split: if_splits sum.splits prod.splits
        dest!: validateDailyVolumeLimit_transactions)

lemma initializeLitWallet_transactions:
  assumes "initializeLitWallet w s = (res, s')"
  shows "transactions s' = transactions s"
  using assms
  by (auto simp: initializeLitWallet_def try_catch_def await_def request_def throw_def ret_def
        transactions_def split: if_splits sum.splits prod.splits)

lemma getTokenInfo_transactions:
  assumes "getTokenInfo w t a s = (res, s')"
  shows "transactions s' = transactions s"
  using assms
  by (auto simp: getTokenInfo_def promise_all2_def await_def request_def ret_def
        transactions_def split: if_splits sum.splits prod.splits)

lemma executeSwap_submitted:
  assumes run: "executeSwap w q s = (res, s')"
      and sub: "SwapTx router sp \<in> set (calls s')"
      and new: "SwapTx router sp \<notin> set (calls s)"
  shows "\<exists>n. BigInt w (amountIn q) = Inr n \<and> 0 < n \<and>
           UNISWAP_V3_ROUTER w = Some router \<and>
           sp = ExactInputSingleParams (tokenIn q) (tokenOut q) 3000 (recipient q)
                  (Date_now w div 1000 + 600) n
                  (calculateMinAmountOut (bigint_div (n * 98) 100) (slippageBps q)) 0 \<and>
           (\<forall>rc. exactInputSingle w router sp = Inr rc \<longrightarrow>
                   find isTransferLog (logs rc) = None \<longrightarrow>
              res = Inr \<lparr>success = True, txHash = Some (hash rc), amountOut = Some ''0'',
                         gasUsed = map_option toString (receipt_gasUsed rc),
                         effectiveSlippage = Some (Num 0), error = None\<rparr>) \<and>
           (\<forall>e. exactInputSingle w router sp = Inl e \<longrightarrow>
              res = Inr \<lparr>success = False, txHash = None, amountOut = None, gasUsed = None,
                         effectiveSlippage = None, error = Some (errorMessage e)\<rparr>)"
  using run sub[unfolded in_transactions] new[unfolded in_transactions]
  apply (simp add: executeSwap_def executeSwap_try_def try_catch_def await_def ret_def throw_def
       request_def Let_def actualAmountOutOf_def failure_def
        split: if_splits sum.splits prod.splits)
  apply (auto dest!: guardrails_facts initializeLitWallet_transactions getTokenInfo_transactions
           simp: falsy_def split: option.splits)
  done

lemma executeSwap_approval:
  assumes run: "executeSwap w q s = (res, s')"
      and sub: "ApproveTx t r n \<in> set (calls s')"
      and new: "ApproveTx t r n \<notin> set (calls s)"
      and fault: "erc20_approve w t r n = Inl e"
  shows "res = Inr \<lparr>success = False, txHash = None, amountOut = None, gasUsed = None,
                    effectiveSlippage = None, error = Some (errorMessage e)\<rparr>"
  using run sub[unfolded in_transactions] new[unfolded in_transactions] fault
  apply (simp add: executeSwap_def executeSwap_try_def try_catch_def await_def ret_def throw_def
       request_def Let_def actualAmountOutOf_def failure_def
        split: if_splits sum.splits prod.splits)
  apply (auto dest!: guardrails_facts initializeLitWallet_transactions getTokenInfo_transactions
           simp: falsy_def split: option.splits)
  done

lemma bigint_div_nonneg: "0 \<le> a \<Longrightarrow> 0 < b \<Longrightarrow> bigint_div a b = a div b"
  by (cases "a = 0") (simp_all add: bigint_div_def)

section \<open>The volume ledger and rejected intents\<close>

text \<open>
  Claim C1 says that a call returning \<open>isValid = false\<close> leaves the daily-volume ledger as
  it was. The code commits the volume in its step 4 and runs the amount and self-swap guards
  after it, so an intent those guards reject has already been booked. Here a swap of WETH
  for WETH, one ether at 2000 USD, is rejected with \<open>Cannot swap token to itself\<close> while
  the wallet's entry for the day goes from absent to 2000 USD.
\<close>

theorem self_swap_rejected_after_volume_commit:
  "fst (validateTradingGuardrails exampleWorld selfSwap emptyState) =
     Inr \<lparr>isValid = False, reason = Some ''Cannot swap token to itself'',
          details = Some (TokenPair WETH WETH)\<rparr> \<and>
   dailyVolumeTracker emptyState (trackerKey WALLET ''2024-05-01'') = None \<and>
   dailyVolumeTracker (snd (validateTradingGuardrails exampleWorld selfSwap emptyState))
     (trackerKey WALLET ''2024-05-01'') = Some \<lparr>date = ''2024-05-01'', volume = Num 2000\<rparr>"
  by (simp add: model_defs example_arith example_defs)

text \<open>
  The same ordering lets a negative amount lower the running total: from 9000 USD, minus
  five ether at 2000 USD is rejected with \<open>Invalid trade amount\<close> and leaves -1000 USD
  on the ledger.
\<close>

lemma negative_amount_lowers_running_total:
  "fst (validateTradingGuardrails exampleWorld negativeAmount ledger9000) =
     Inr \<lparr>isValid = False, reason = Some ''Invalid trade amount'',
          details = Some (AmountDetails ''-5000000000000000000'')\<rparr> \<and>
   dailyVolumeTracker (snd (validateTradingGuardrails exampleWorld negativeAmount ledger9000))
     (trackerKey WALLET ''2024-05-01'') = Some \<lparr>date = ''2024-05-01'', volume = Num (- 1000)\<rparr>"
  by (simp add: model_defs example_arith example_defs)

text \<open>
  The rejections that come before the commit do keep the ledger: a call rejected for any
  reason other than the two late guards leaves every entry as it was.
\<close>

lemma early_rejection_keeps_ledger:
  assumes "validateTradingGuardrails w p s = (Inr r, s')" and "\<not> isValid r"
      and "reason r \<noteq> Some ''Invalid trade amount''"
      and "reason r \<noteq> Some ''Cannot swap token to itself''"
  shows "dailyVolumeTracker s' = dailyVolumeTracker s"
  using assms
  by (auto simp: guardrails_unfold split: if_splits sum.splits prod.splits
        dest!: runningTotal_after(2))

section \<open>The order of the checks\<close>

text \<open>
  Claim C2, as stated: an intent with \<open>amountIn = 0\<close> is rejected with
  \<open>Invalid trade amount\<close> before the whitelist oracle or the price oracle is invoked.
  With a whitelist contract configured, the zero-amount intent below is indeed rejected with
  that reason, but only after both whitelist queries and the price query have been issued.
\<close>

theorem zero_amount_reaches_oracles:
  "fst (validateTradingGuardrails whitelistedWorld zeroAmount emptyState) =
     Inr \<lparr>isValid = False, reason = Some ''Invalid trade amount'',
          details = Some (AmountDetails ''0'')\<rparr> \<and>
   calls emptyState = [] \<and>
   calls (snd (validateTradingGuardrails whitelistedWorld zeroAmount emptyState)) =
     [WhitelistQuery WETH, WhitelistQuery USDC, PriceQuery [WETH, USDC]]"
  by (simp add: model_defs example_arith example_defs)

text \<open>
  Claim C2, amended: an intent whose amount reads as a value \<open>\<le> 0\<close> is never accepted;
  the call returns an invalid result, not an exception. When the slippage is within its
  bounds, the whitelist check passes and the daily volume limit does not reject the trade,
  the result is the rejection \<open>Invalid trade amount\<close>, naming the amount. That rejection
  is not reached before the network calls, though: a call that returns it has issued the
  price query, and before it the whitelist queries for both tokens when a whitelist
  contract is configured, and nothing else.
\<close>

theorem nonpositive_amount_rejected_after_oracles:
  assumes parsed: "BigInt w (amountIn p) = Inr n" and nonpos: "n \<le> 0"
      and run: "validateTradingGuardrails w p s = (res, s')"
  shows "(\<exists>r. res = Inr r \<and> \<not> isValid r) \<and>
         (isValid (validateSlippage w (slippageBps p)) \<and>
          (falsy (TOKEN_WHITELIST_CONTRACT w) \<or>
           isWhitelisted w (tokenIn p) = Inr True \<and> isWhitelisted w (tokenOut p) = Inr True) \<and>
          isValid (fst (validateDailyVolumeLimit w (walletAddress p)
                         (tradeValueOf n
                            (tokenInPrice (pricesOf w [tokenIn p, tokenOut p]) (tokenIn p)))
                         s)) \<longrightarrow>
            res = Inr \<lparr>isValid = False, reason = Some ''Invalid trade amount'',
                       details = Some (AmountDetails (amountIn p))\<rparr> \<and>
            calls s' = calls s @
              (if falsy (TOKEN_WHITELIST_CONTRACT w) then []
               else [WhitelistQuery (tokenIn p), WhitelistQuery (tokenOut p)]) @
              [PriceQuery [tokenIn p, tokenOut p]]) \<and>
         (\<forall>r. res = Inr r \<and> reason r = Some ''Invalid trade amount'' \<longrightarrow>
            r = \<lparr>isValid = False, reason = Some ''Invalid trade amount'',
                  details = Some (AmountDetails (amountIn p))\<rparr> \<and>
            calls s' = calls s @
              (if falsy (TOKEN_WHITELIST_CONTRACT w) then []
               else [WhitelistQuery (tokenIn p), WhitelistQuery (tokenOut p)]) @
              [PriceQuery [tokenIn p, tokenOut p]])"
  using parsed nonpos run[unfolded guardrails_run]
  by (auto simp: Let_def validateSlippage_def whitelistVerdict_def whitelistCalls_def
        validateDailyVolumeLimit_ignores_calls validateDailyVolumeLimit_reason
        split: if_splits)

theorem nonpositive_amount_rejected_after_oracles_witness:
  "BigInt whitelistedWorld (amountIn zeroAmount) = Inr 0 \<and> (0::int) \<le> 0 \<and>
   isValid (validateSlippage whitelistedWorld (slippageBps zeroAmount)) \<and>
   isWhitelisted whitelistedWorld (tokenIn zeroAmount) = Inr True \<and>
   isWhitelisted whitelistedWorld (tokenOut zeroAmount) = Inr True \<and>
   isValid (fst (validateDailyVolumeLimit whitelistedWorld (walletAddress zeroAmount)
              (tradeValueOf 0 (tokenInPrice
                 (pricesOf whitelistedWorld [tokenIn zeroAmount, tokenOut zeroAmount])
                 (tokenIn zeroAmount))) ledger9000)) \<and>
   fst (validateTradingGuardrails whitelistedWorld zeroAmount ledger9000) =
     Inr \<lparr>isValid = False, reason = Some ''Invalid trade amount'',
          details = Some (AmountDetails ''0'')\<rparr> \<and>
   calls (snd (validateTradingGuardrails whitelistedWorld zeroAmount ledger9000)) =
     [WhitelistQuery WETH, WhitelistQuery USDC, PriceQuery [WETH, USDC]]"
proof -
  have parsed: "BigInt whitelistedWorld (amountIn zeroAmount) = Inr 0"
    by (simp add: example_defs)
  have nonpos: "(0::int) \<le> 0" by simp
  have slip: "isValid (validateSlippage whitelistedWorld (slippageBps zeroAmount))"
    by (simp add: validateSlippage_def maxSlippageBps_def example_defs)
  have listed: "isWhitelisted whitelistedWorld (tokenIn zeroAmount) = Inr True"
    "isWhitelisted whitelistedWorld (tokenOut zeroAmount) = Inr True"
    by (simp_all add: example_defs)
  have configured: "\<not> falsy (TOKEN_WHITELIST_CONTRACT whitelistedWorld)"
    by (simp add: falsy_def example_defs)
  have vol: "isValid (fst (validateDailyVolumeLimit whitelistedWorld (walletAddress zeroAmount)
              (tradeValueOf 0 (tokenInPrice
                 (pricesOf whitelistedWorld [tokenIn zeroAmount, tokenOut zeroAmount])
                 (tokenIn zeroAmount))) ledger9000))"
    by (simp add: model_defs example_arith pricesOf_def example_defs)
  note main = nonpositive_amount_rejected_after_oracles[OF parsed nonpos surjective_pairing,
      where s = ledger9000]
  from main slip listed vol
  have res: "fst (validateTradingGuardrails whitelistedWorld zeroAmount ledger9000) =
     Inr \<lparr>isValid = False, reason = Some ''Invalid trade amount'',
          details = Some (AmountDetails (amountIn zeroAmount))\<rparr>"
    by blast
  with main configured
  have "calls (snd (validateTradingGuardrails whitelistedWorld zeroAmount ledger9000)) =
     calls ledger9000 @ [WhitelistQuery (tokenIn zeroAmount), WhitelistQuery (tokenOut zeroAmount)] @
       [PriceQuery [tokenIn zeroAmount, tokenOut zeroAmount]]"
    by simp
  then have queries: "calls (snd (validateTradingGuardrails whitelistedWorld zeroAmount ledger9000)) =
     [WhitelistQuery WETH, WhitelistQuery USDC, PriceQuery [WETH, USDC]]"
    by (simp add: ledger9000_def zeroAmount_def)
  from res have res': "fst (validateTradingGuardrails whitelistedWorld zeroAmount ledger9000) =
     Inr \<lparr>isValid = False, reason = Some ''Invalid trade amount'',
          details = Some (AmountDetails ''0'')\<rparr>"
    by (simp add: zeroAmount_def)
  from parsed nonpos slip listed vol res' queries show ?thesis by blast
qed

section \<open>The daily volume limit\<close>

text \<open>
  Claim C3, as stated: a call is rejected exactly when
  \<open>running + tradeValueUsd > maxDailyVolumeUsd\<close>. The code adds and compares doubles, and
  the sum is rounded before it is compared. With 10000 USD on the ledger and the default
  limit of 10000, a trade worth \<open>2^-41\<close> USD has \<open>running + tradeValueUsd\<close> above the
  limit, yet the rounded sum is 10000: the call is accepted and the ledger stays at 10000.
  The same happens through \<open>validateTradingGuardrails\<close> for a trade of one wei at a
  price of 1.
\<close>

theorem tiny_trade_accepted_at_the_limit:
  "maxDailyVolumeUsd exampleWorld = Num 10000 \<and>
   dailyVolumeTracker ledger10000 (WALLET @ ''-'' @ ''2024-05-01'') =
     Some \<lparr>date = ''2024-05-01'', volume = Num 10000\<rparr> \<and>
   (10000::real) + 1 / 2 ^ 41 > 10000 \<and>
   isValid (fst (validateDailyVolumeLimit exampleWorld WALLET (Num (1 / 2 ^ 41)) ledger10000)) \<and>
   dailyVolumeTracker
     (snd (validateDailyVolumeLimit exampleWorld WALLET (Num (1 / 2 ^ 41)) ledger10000))
     (WALLET @ ''-'' @ ''2024-05-01'') = Some \<lparr>date = ''2024-05-01'', volume = Num 10000\<rparr> \<and>
   (\<exists>r. fst (validateTradingGuardrails unquotedWorld oneWei ledger10000) = Inr r \<and> isValid r \<and>
        tradeValueUsd (the (details r)) = Num (5192296858534828 / 2 ^ 112)) \<and>
   dailyVolumeTracker (snd (validateTradingGuardrails unquotedWorld oneWei ledger10000))
     (WALLET @ ''-'' @ ''2024-05-01'') = Some \<lparr>date = ''2024-05-01'', volume = Num 10000\<rparr>"
  by (simp add: model_defs example_arith example_defs)

text \<open>
  Claim C3, amended: for a wallet and a day the ledger holds the running total under the
  key \<open>wallet-YYYY-MM-DD\<close> (0 when there is no entry). \<open>validateDailyVolumeLimit\<close>
  rejects exactly when the double-precision sum of the running total and the trade value,
  that is their sum rounded to the nearest double, exceeds \<open>maxDailyVolumeUsd\<close>. A
  rejection reports the current volume, the trade value, the rounded sum and the limit and
  leaves the state alone; an accepted call stores the rounded sum under that key and
  changes nothing else, so that the next call on the same day is judged against it and
  reports the sum of both trades as \<open>newTotal\<close> when it is rejected.
  \<open>validateTradingGuardrails\<close> answers \<open>Daily volume limit exceeded\<close> with the result
  of this check, run on the ledger it was given with the wallet of the intent and the trade
  value \<open>Number(amountIn) * price / 1e18\<close>, and a validation that passes leaves the
  ledger this check leaves. The day is the part of the ISO timestamp before its \<open>T\<close>.
  (With the default limit of 10000 and 9000 on the ledger: 500 is accepted and leaves 9500,
  then 600 is rejected with \<open>newTotal = 10100\<close>; this is the witness.)
\<close>

theorem daily_volume_running_total:
  "(validateDailyVolumeLimit w wallet v s = (r, s') \<longrightarrow>
      (isValid r \<longleftrightarrow>
         \<not> js_gt (js_add (case dailyVolumeTracker s (wallet @ ''-'' @ today w) of
                            None \<Rightarrow> Num 0 | Some d \<Rightarrow> volume d) v)
              (maxDailyVolumeUsd w)) \<and>
      details r =
        Some (VolumeDetails
                (case dailyVolumeTracker s (wallet @ ''-'' @ today w) of
                   None \<Rightarrow> Num 0 | Some d \<Rightarrow> volume d)
                v
                (js_add (case dailyVolumeTracker s (wallet @ ''-'' @ today w) of
                           None \<Rightarrow> Num 0 | Some d \<Rightarrow> volume d) v)
                (maxDailyVolumeUsd w)) \<and>
      (\<not> isValid r \<longrightarrow> reason r = Some ''Daily volume limit exceeded'' \<and> s' = s) \<and>
      (isValid r \<longrightarrow>
         reason r = None \<and>
         s' = s\<lparr>dailyVolumeTracker := (dailyVolumeTracker s)
                 (wallet @ ''-'' @ today w \<mapsto>
                    \<lparr>date = today w,
                     volume = js_add (case dailyVolumeTracker s (wallet @ ''-'' @ today w) of
                                        None \<Rightarrow> Num 0 | Some d \<Rightarrow> volume d) v\<rparr>)\<rparr> \<and>
         (\<forall>v2 r2 s2. validateDailyVolumeLimit w wallet v2 s' = (r2, s2) \<longrightarrow>
            (isValid r2 \<longleftrightarrow>
               \<not> js_gt (js_add (js_add (case dailyVolumeTracker s (wallet @ ''-'' @ today w) of
                                          None \<Rightarrow> Num 0 | Some d \<Rightarrow> volume d) v) v2)
                    (maxDailyVolumeUsd w)) \<and>
            (\<not> isValid r2 \<longrightarrow>
               reason r2 = Some ''Daily volume limit exceeded'' \<and>
               map_option newTotal (details r2) =
                 Some (js_add (js_add (case dailyVolumeTracker s (wallet @ ''-'' @ today w) of
                                         None \<Rightarrow> Num 0 | Some d \<Rightarrow> volume d) v) v2))))) \<and>
   (validateTradingGuardrails w p s = (Inr g, t) \<longrightarrow>
      (reason g = Some ''Daily volume limit exceeded'' \<longrightarrow>
         (\<exists>n. BigInt w (amountIn p) = Inr n \<and>
            fst (validateDailyVolumeLimit w (walletAddress p)
                   (tradeValueOf n
                      (tokenInPrice (pricesOf w [tokenIn p, tokenOut p]) (tokenIn p))) s) = g) \<and>
         dailyVolumeTracker t = dailyVolumeTracker s) \<and>
      (isValid g \<longrightarrow>
         (\<exists>n. BigInt w (amountIn p) = Inr n \<and>
            isValid (fst (validateDailyVolumeLimit w (walletAddress p)
                   (tradeValueOf n
                      (tokenInPrice (pricesOf w [tokenIn p, tokenOut p]) (tokenIn p))) s)) \<and>
            dailyVolumeTracker t =
              dailyVolumeTracker (snd (validateDailyVolumeLimit w (walletAddress p)
                   (tradeValueOf n
                      (tokenInPrice (pricesOf w [tokenIn p, tokenOut p]) (tokenIn p))) s)))) \<and>
      (\<forall>n. isValid (validateSlippage w (slippageBps p)) \<and>
           (falsy (TOKEN_WHITELIST_CONTRACT w) \<or>
            isWhitelisted w (tokenIn p) = Inr True \<and> isWhitelisted w (tokenOut p) = Inr True) \<and>
           BigInt w (amountIn p) = Inr n \<and>
           \<not> isValid (fst (validateDailyVolumeLimit w (walletAddress p)
                   (tradeValueOf n
                      (tokenInPrice (pricesOf w [tokenIn p, tokenOut p]) (tokenIn p))) s)) \<longrightarrow>
         g = fst (validateDailyVolumeLimit w (walletAddress p)
                   (tradeValueOf n
                      (tokenInPrice (pricesOf w [tokenIn p, tokenOut p]) (tokenIn p))) s))) \<and>
   (toISOString w = day @ CHR ''T'' # rest \<and> CHR ''T'' \<notin> set day \<longrightarrow> today w = day)"
proof (intro conjI impI)
  assume run: "validateDailyVolumeLimit w wallet v s = (r, s')"
  let ?running = "case dailyVolumeTracker s (wallet @ ''-'' @ today w) of
                    None \<Rightarrow> Num 0 | Some d \<Rightarrow> volume d"
  have running: "runningTotal w wallet s = ?running"
    by (simp add: runningTotal_def trackerKey_def)
  show "isValid r \<longleftrightarrow> \<not> js_gt (js_add ?running v) (maxDailyVolumeUsd w)"
    using runningTotal_after(1)[OF run] running by simp
  show "details r = Some (VolumeDetails ?running v (js_add ?running v) (maxDailyVolumeUsd w))"
    using runningTotal_after(4)[OF run] running by simp
  {
    assume "\<not> isValid r"
    then show "reason r = Some ''Daily volume limit exceeded''" and "s' = s"
      using runningTotal_after(2,3)[OF run] by simp_all
  }
  assume ok: "isValid r"
  show "reason r = None"
    using run ok by (auto simp: validateDailyVolumeLimit_def Let_def split: if_splits)
  show stored: "s' = s\<lparr>dailyVolumeTracker := (dailyVolumeTracker s)
                 (wallet @ ''-'' @ today w \<mapsto> \<lparr>date = today w, volume = js_add ?running v\<rparr>)\<rparr>"
    using run ok
    by (auto simp: validateDailyVolumeLimit_def trackerKey_def Let_def
          split: if_splits option.splits)
  have total: "runningTotal w wallet s' = js_add ?running v"
    using runningTotal_after(5)[OF run ok] running by simp
  show "\<forall>v2 r2 s2. validateDailyVolumeLimit w wallet v2 s' = (r2, s2) \<longrightarrow>
            (isValid r2 \<longleftrightarrow> \<not> js_gt (js_add (js_add ?running v) v2) (maxDailyVolumeUsd w)) \<and>
            (\<not> isValid r2 \<longrightarrow>
               reason r2 = Some ''Daily volume limit exceeded'' \<and>
               map_option newTotal (details r2) = Some (js_add (js_add ?running v) v2))"
  proof (intro allI impI)
    fix v2 r2 s2
    assume second: "validateDailyVolumeLimit w wallet v2 s' = (r2, s2)"
    show "(isValid r2 \<longleftrightarrow> \<not> js_gt (js_add (js_add ?running v) v2) (maxDailyVolumeUsd w)) \<and>
            (\<not> isValid r2 \<longrightarrow>
               reason r2 = Some ''Daily volume limit exceeded'' \<and>
               map_option newTotal (details r2) = Some (js_add (js_add ?running v) v2))"
      using runningTotal_after(1,3,4)[OF second] total by simp
  qed
next
  assume run: "validateTradingGuardrails w p s = (Inr g, t)"
  show "\<forall>n. isValid (validateSlippage w (slippageBps p)) \<and>
           (falsy (TOKEN_WHITELIST_CONTRACT w) \<or>
            isWhitelisted w (tokenIn p) = Inr True \<and> isWhitelisted w (tokenOut p) = Inr True) \<and>
           BigInt w (amountIn p) = Inr n \<and>
           \<not> isValid (fst (validateDailyVolumeLimit w (walletAddress p)
                   (tradeValueOf n
                      (tokenInPrice (pricesOf w [tokenIn p, tokenOut p]) (tokenIn p))) s)) \<longrightarrow>
         g = fst (validateDailyVolumeLimit w (walletAddress p)
                   (tradeValueOf n
                      (tokenInPrice (pricesOf w [tokenIn p, tokenOut p]) (tokenIn p))) s)"
    using run[unfolded guardrails_run]
    by (auto simp: Let_def whitelistVerdict_def validateDailyVolumeLimit_ignores_calls
          split: if_splits sum.splits)
  {
    assume "reason g = Some ''Daily volume limit exceeded''"
    with run[unfolded guardrails_run]
    show "\<exists>n. BigInt w (amountIn p) = Inr n \<and>
            fst (validateDailyVolumeLimit w (walletAddress p)
                   (tradeValueOf n
                      (tokenInPrice (pricesOf w [tokenIn p, tokenOut p]) (tokenIn p))) s) = g"
      and "dailyVolumeTracker t = dailyVolumeTracker s"
      by (auto simp: Let_def validateSlippage_def validateDailyVolumeLimit_ignores_calls
            split: if_splits sum.splits
            dest: runningTotal_after(2)[OF surjective_pairing])
  }
  assume "isValid g"
  with run[unfolded guardrails_run]
  show "\<exists>n. BigInt w (amountIn p) = Inr n \<and>
            isValid (fst (validateDailyVolumeLimit w (walletAddress p)
                   (tradeValueOf n
                      (tokenInPrice (pricesOf w [tokenIn p, tokenOut p]) (tokenIn p))) s)) \<and>
            dailyVolumeTracker t =
              dailyVolumeTracker (snd (validateDailyVolumeLimit w (walletAddress p)
                   (tradeValueOf n
                      (tokenInPrice (pricesOf w [tokenIn p, tokenOut p]) (tokenIn p))) s))"
    by (auto simp: Let_def validateSlippage_def validateDailyVolumeLimit_ignores_calls
          split: if_splits sum.splits)
next
  assume iso: "toISOString w = day @ CHR ''T'' # rest \<and> CHR ''T'' \<notin> set day"
  then have "\<And>c. c \<in> set day \<Longrightarrow> c \<noteq> CHR ''T''"
    by auto
  then have "takeWhile (\<lambda>c. c \<noteq> CHR ''T'') (day @ CHR ''T'' # rest) = day"
    by (simp add: takeWhile_append2)
  with iso show "today w = day"
    by (simp add: today_def)
qed

theorem daily_volume_running_total_witness:
  "today exampleWorld = ''2024-05-01'' \<and>
   maxDailyVolumeUsd exampleWorld = Num 10000 \<and>
   dailyVolumeTracker ledger9000 (WALLET @ ''-'' @ ''2024-05-01'') =
     Some \<lparr>date = ''2024-05-01'', volume = Num 9000\<rparr> \<and>
   isValid (fst (validateDailyVolumeLimit exampleWorld WALLET (Num 500) ledger9000)) \<and>
   dailyVolumeTracker (snd (validateDailyVolumeLimit exampleWorld WALLET (Num 500) ledger9000))
     (WALLET @ ''-'' @ ''2024-05-01'') = Some \<lparr>date = ''2024-05-01'', volume = Num 9500\<rparr> \<and>
   \<not> isValid (fst (validateDailyVolumeLimit exampleWorld WALLET (Num 600)
                    (snd (validateDailyVolumeLimit exampleWorld WALLET (Num 500) ledger9000)))) \<and>
   reason (fst (validateDailyVolumeLimit exampleWorld WALLET (Num 600)
                    (snd (validateDailyVolumeLimit exampleWorld WALLET (Num 500) ledger9000)))) =
     Some ''Daily volume limit exceeded'' \<and>
   map_option newTotal
     (details (fst (validateDailyVolumeLimit exampleWorld WALLET (Num 600)
                    (snd (validateDailyVolumeLimit exampleWorld WALLET (Num 500) ledger9000))))) =
     Some (Num 10100) \<and>
   (\<exists>r. fst (validateTradingGuardrails exampleWorld quarterEther ledger9000) = Inr r \<and>
        isValid r \<and> tradeValueUsd (the (details r)) = Num 500) \<and>
   dailyVolumeTracker (snd (validateTradingGuardrails exampleWorld quarterEther ledger9000))
     (WALLET @ ''-'' @ ''2024-05-01'') = Some \<lparr>date = ''2024-05-01'', volume = Num 9500\<rparr> \<and>
   fst (validateTradingGuardrails exampleWorld threeTenthsEther
          (snd (validateTradingGuardrails exampleWorld quarterEther ledger9000))) =
     Inr \<lparr>isValid = False, reason = Some ''Daily volume limit exceeded'',
          details = Some (VolumeDetails (Num 9500) (Num 600) (Num 10100) (Num 10000))\<rparr>"
proof -
  have day: "today exampleWorld = ''2024-05-01''"
    by (simp add: today_def exampleWorld_def)
  have lim: "maxDailyVolumeUsd exampleWorld = Num 10000"
    by (simp add: maxDailyVolumeUsd_def exampleWorld_def)
  have start: "dailyVolumeTracker ledger9000 (WALLET @ ''-'' @ ''2024-05-01'') =
     Some \<lparr>date = ''2024-05-01'', volume = Num 9000\<rparr>"
    by (simp add: ledger9000_def trackerKey_def)
  note main = daily_volume_running_total[where w = exampleWorld and wallet = WALLET
      and v = "Num 500" and s = ledger9000
      and r = "fst (validateDailyVolumeLimit exampleWorld WALLET (Num 500) ledger9000)"
      and s' = "snd (validateDailyVolumeLimit exampleWorld WALLET (Num 500) ledger9000)",
      THEN conjunct1, rule_format, OF surjective_pairing]
  from main day lim start
  have first: "isValid (fst (validateDailyVolumeLimit exampleWorld WALLET (Num 500) ledger9000))"
    by (simp add: example_arith)
  with main day start
  have stored: "snd (validateDailyVolumeLimit exampleWorld WALLET (Num 500) ledger9000) =
      ledger9000\<lparr>dailyVolumeTracker := (dailyVolumeTracker ledger9000)
         (WALLET @ ''-'' @ ''2024-05-01'' \<mapsto> \<lparr>date = ''2024-05-01'', volume = Num 9500\<rparr>)\<rparr>"
    by (simp add: example_arith)
  from main first day start lim
  have next_call: "\<forall>v2 r2 s2.
      validateDailyVolumeLimit exampleWorld WALLET v2
        (snd (validateDailyVolumeLimit exampleWorld WALLET (Num 500) ledger9000)) = (r2, s2) \<longrightarrow>
      (isValid r2 \<longleftrightarrow> \<not> js_gt (js_add (Num 9500) v2) (Num 10000)) \<and>
      (\<not> isValid r2 \<longrightarrow>
         reason r2 = Some ''Daily volume limit exceeded'' \<and>
         map_option newTotal (details r2) = Some (js_add (Num 9500) v2))"
    by (simp add: example_arith)
  from next_call[rule_format, OF surjective_pairing, of "Num 600"]
  have second: "\<not> isValid (fst (validateDailyVolumeLimit exampleWorld WALLET (Num 600)
                    (snd (validateDailyVolumeLimit exampleWorld WALLET (Num 500) ledger9000)))) \<and>
   reason (fst (validateDailyVolumeLimit exampleWorld WALLET (Num 600)
                    (snd (validateDailyVolumeLimit exampleWorld WALLET (Num 500) ledger9000)))) =
     Some ''Daily volume limit exceeded'' \<and>
   map_option newTotal
     (details (fst (validateDailyVolumeLimit exampleWorld WALLET (Num 600)
                    (snd (validateDailyVolumeLimit exampleWorld WALLET (Num 500) ledger9000))))) =
     Some (Num 10100)"
    by (simp add: example_arith)
  have g1: "validateTradingGuardrails exampleWorld quarterEther ledger9000 =
     (Inr \<lparr>isValid = True, reason = None,
           details = Some (Validated (Some (SlippageMax 50 300))
                       (Some (VolumeDetails (Num 9000) (Num 500) (Num 9500) (Num 10000)))
                       (Num 500) ''2024-05-01T12:00:00.000Z'')\<rparr>,
      \<lparr>dailyVolumeTracker =
         [trackerKey WALLET ''2024-05-01'' \<mapsto> \<lparr>date = ''2024-05-01'', volume = Num 9500\<rparr>],
       calls = [PriceQuery [WETH, USDC]]\<rparr>)"
    by (simp add: model_defs example_arith example_defs)
  have g2: "fst (validateTradingGuardrails exampleWorld threeTenthsEther
       \<lparr>dailyVolumeTracker =
         [trackerKey WALLET ''2024-05-01'' \<mapsto> \<lparr>date = ''2024-05-01'', volume = Num 9500\<rparr>],
       calls = [PriceQuery [WETH, USDC]]\<rparr>) =
     Inr \<lparr>isValid = False, reason = Some ''Daily volume limit exceeded'',
          details = Some (VolumeDetails (Num 9500) (Num 600) (Num 10100) (Num 10000))\<rparr>"
    by (simp add: model_defs example_arith example_defs)
  from day lim start first stored second g1 g2 show ?thesis
    by (simp add: trackerKey_def)
qed

section \<open>Slippage bounds\<close>

text \<open>
  Claim C4: when \<open>slippageBps\<close> lies outside \<open>[1, maxSlippageBps]\<close> (300 unless
  configured), \<open>validateTradingGuardrails\<close> returns an invalid result whose reason is
  \<open>Slippage exceeds maximum allowed\<close> when the value is above the maximum and
  \<open>Slippage too low (unrealistic)\<close> otherwise, i.e. when it is below 1; the state it
  returns is the state it was given, so the ledger is not touched and no request is made.
  The upper bound is tested first, which decides the reason should a configured maximum
  be below 1.
\<close>

theorem slippage_out_of_bounds_rejected:
  assumes "slippageBps p > maxSlippageBps w \<or> slippageBps p < 1"
  shows "validateTradingGuardrails w p s =
     (Inr \<lparr>isValid = False,
           reason = Some (if slippageBps p > maxSlippageBps w
                          then ''Slippage exceeds maximum allowed''
                          else ''Slippage too low (unrealistic)''),
           details = Some (if slippageBps p > maxSlippageBps w
                          then SlippageMax (slippageBps p) (maxSlippageBps w)
                          else SlippageMin (slippageBps p) 1)\<rparr>, s)"
  using assms
  by (auto simp: validateTradingGuardrails_def validateTradingGuardrails_try_def try_catch_def
        ret_def validateSlippage_def)

theorem slippage_out_of_bounds_rejected_witness:
  "(slippageBps highSlippage > maxSlippageBps exampleWorld \<or> slippageBps highSlippage < 1) \<and>
   validateTradingGuardrails exampleWorld highSlippage ledger9000 =
     (Inr \<lparr>isValid = False, reason = Some ''Slippage exceeds maximum allowed'',
           details = Some (SlippageMax 500 300)\<rparr>, ledger9000) \<and>
   (slippageBps (highSlippage\<lparr>slippageBps := 0\<rparr>) > maxSlippageBps exampleWorld \<or>
    slippageBps (highSlippage\<lparr>slippageBps := 0\<rparr>) < 1) \<and>
   validateTradingGuardrails exampleWorld (highSlippage\<lparr>slippageBps := 0\<rparr>) ledger9000 =
     (Inr \<lparr>isValid = False, reason = Some ''Slippage too low (unrealistic)'',
           details = Some (SlippageMin 0 1)\<rparr>, ledger9000)"
proof -
  have max: "maxSlippageBps exampleWorld = 300"
    by (simp add: maxSlippageBps_def exampleWorld_def)
  have high: "slippageBps highSlippage > maxSlippageBps exampleWorld \<or> slippageBps highSlippage < 1"
    by (simp add: max highSlippage_def)
  have low: "slippageBps (highSlippage\<lparr>slippageBps := 0\<rparr>) > maxSlippageBps exampleWorld \<or>
    slippageBps (highSlippage\<lparr>slippageBps := 0\<rparr>) < 1"
    by simp
  from slippage_out_of_bounds_rejected[OF high, of ledger9000]
       slippage_out_of_bounds_rejected[OF low, of ledger9000] high low
  show ?thesis by (simp add: max highSlippage_def)
qed

section \<open>The whitelist check\<close>

text \<open>
  Claim C5: the whitelist check fails in two different directions. When the whitelist
  contract address is unset or empty, no call of \<open>validateTradingGuardrails\<close> returns the
  reason \<open>One or both tokens not whitelisted\<close>, whatever the tokens, and no whitelist
  query is issued. When the address is configured and the query for either token throws
  (the query is issued once the slippage check has passed), the call returns exactly that
  rejection, having issued both queries and nothing else.
\<close>

theorem whitelist_fail_open_fail_closed:
  "(falsy (TOKEN_WHITELIST_CONTRACT w) \<longrightarrow>
      (\<forall>res s'. validateTradingGuardrails w p s = (res, s') \<longrightarrow>
         (\<forall>r. res = Inr r \<longrightarrow> reason r \<noteq> Some ''One or both tokens not whitelisted'') \<and>
         (\<forall>t. WhitelistQuery t \<in> set (calls s') \<longrightarrow> WhitelistQuery t \<in> set (calls s)))) \<and>
   (\<not> falsy (TOKEN_WHITELIST_CONTRACT w) \<and> isValid (validateSlippage w (slippageBps p)) \<and>
    (isWhitelisted w (tokenIn p) = Inl e \<or> isWhitelisted w (tokenOut p) = Inl e) \<longrightarrow>
      validateTradingGuardrails w p s =
        (Inr \<lparr>isValid = False, reason = Some ''One or both tokens not whitelisted'',
              details = Some (TokenPair (tokenIn p) (tokenOut p))\<rparr>,
         s\<lparr>calls := calls s @ [WhitelistQuery (tokenIn p), WhitelistQuery (tokenOut p)]\<rparr>))"
proof (intro conjI impI allI)
  fix res s' r
  assume "falsy (TOKEN_WHITELIST_CONTRACT w)" "validateTradingGuardrails w p s = (res, s')" "res = Inr r"
  then show "reason r \<noteq> Some ''One or both tokens not whitelisted''"
    by (auto simp: guardrails_unfold whitelistVerdict_def validateSlippage_def validateDailyVolumeLimit_def
          split: if_splits sum.splits prod.splits)
next
  fix res s' t
  assume "falsy (TOKEN_WHITELIST_CONTRACT w)" "validateTradingGuardrails w p s = (res, s')"
    "WhitelistQuery t \<in> set (calls s')"
  then show "WhitelistQuery t \<in> set (calls s)"
    by (auto simp: guardrails_unfold whitelistCalls_def
          split: if_splits sum.splits prod.splits dest!: validateDailyVolumeLimit_calls)
next
  assume "\<not> falsy (TOKEN_WHITELIST_CONTRACT w) \<and> isValid (validateSlippage w (slippageBps p)) \<and>
    (isWhitelisted w (tokenIn p) = Inl e \<or> isWhitelisted w (tokenOut p) = Inl e)"
  then show "validateTradingGuardrails w p s =
        (Inr \<lparr>isValid = False, reason = Some ''One or both tokens not whitelisted'',
              details = Some (TokenPair (tokenIn p) (tokenOut p))\<rparr>,
         s\<lparr>calls := calls s @ [WhitelistQuery (tokenIn p), WhitelistQuery (tokenOut p)]\<rparr>)"
    by (auto simp: guardrails_unfold whitelistVerdict_def whitelistCalls_def)
qed

theorem whitelist_fail_open_fail_closed_witness:
  "falsy (TOKEN_WHITELIST_CONTRACT unlistedWorld) \<and>
   isWhitelisted unlistedWorld (tokenIn oneEther) = Inr False \<and>
   (\<exists>r. fst (validateTradingGuardrails unlistedWorld oneEther emptyState) = Inr r \<and>
         isValid r \<and> reason r \<noteq> Some ''One or both tokens not whitelisted'') \<and>
   calls (snd (validateTradingGuardrails unlistedWorld oneEther emptyState)) =
     [PriceQuery [WETH, USDC]] \<and>
   \<not> falsy (TOKEN_WHITELIST_CONTRACT failingWhitelistWorld) \<and>
   isValid (validateSlippage failingWhitelistWorld (slippageBps oneEther)) \<and>
   isWhitelisted failingWhitelistWorld (tokenIn oneEther) =
     Inl (Error ''could not detect network'') \<and>
   validateTradingGuardrails failingWhitelistWorld oneEther emptyState =
     (Inr \<lparr>isValid = False, reason = Some ''One or both tokens not whitelisted'',
           details = Some (TokenPair WETH USDC)\<rparr>,
      \<lparr>dailyVolumeTracker = Map.empty, calls = [WhitelistQuery WETH, WhitelistQuery USDC]\<rparr>)"
proof -
  have unset: "falsy (TOKEN_WHITELIST_CONTRACT unlistedWorld)"
    by (simp add: falsy_def example_defs)
  have unlisted: "isWhitelisted unlistedWorld (tokenIn oneEther) = Inr False"
    by (simp add: example_defs)
  have passed: "fst (validateTradingGuardrails unlistedWorld oneEther emptyState) =
      Inr \<lparr>isValid = True, reason = None,
           details = Some (Validated (Some (SlippageMax 50 300))
                       (Some (VolumeDetails (Num 0) (Num 2000) (Num 2000) (Num 10000)))
                       (Num 2000)
                       ''2024-05-01T12:00:00.000Z'')\<rparr>"
    by (simp add: model_defs example_arith example_defs)
  have queries: "calls (snd (validateTradingGuardrails unlistedWorld oneEther emptyState)) =
     [PriceQuery [WETH, USDC]]"
    by (simp add: model_defs example_arith example_defs)
  have configured: "\<not> falsy (TOKEN_WHITELIST_CONTRACT failingWhitelistWorld)"
    by (simp add: falsy_def example_defs)
  have slip: "isValid (validateSlippage failingWhitelistWorld (slippageBps oneEther))"
    by (simp add: validateSlippage_def maxSlippageBps_def example_defs)
  have throws: "isWhitelisted failingWhitelistWorld (tokenIn oneEther) =
     Inl (Error ''could not detect network'')"
    by (simp add: example_defs)
  note main = whitelist_fail_open_fail_closed
  from main[where w = unlistedWorld and p = oneEther and s = emptyState] unset
  have "\<forall>r. fst (validateTradingGuardrails unlistedWorld oneEther emptyState) = Inr r \<longrightarrow>
          reason r \<noteq> Some ''One or both tokens not whitelisted''"
    by (metis surjective_pairing)
  with passed have a: "\<exists>r. fst (validateTradingGuardrails unlistedWorld oneEther emptyState) = Inr r \<and>
         isValid r \<and> reason r \<noteq> Some ''One or both tokens not whitelisted''"
    by simp
  from main[where w = failingWhitelistWorld and p = oneEther and s = emptyState
      and e = "Error ''could not detect network''"]
    configured slip throws
  have b: "validateTradingGuardrails failingWhitelistWorld oneEther emptyState =
     (Inr \<lparr>isValid = False, reason = Some ''One or both tokens not whitelisted'',
           details = Some (TokenPair WETH USDC)\<rparr>,
      \<lparr>dailyVolumeTracker = Map.empty, calls = [WhitelistQuery WETH, WhitelistQuery USDC]\<rparr>)"
    by (simp add: oneEther_def emptyState_def)
  from unset unlisted a queries configured slip throws b show ?thesis by blast
qed

section \<open>The frame of a validation\<close>

text \<open>
  Claim C9: a call of \<open>validateTradingGuardrails\<close> for wallet \<open>W\<close> on day \<open>D\<close>
  changes at most the ledger entry under the key of \<open>(W, D)\<close>: every other key of the
  map keeps its entry, and so does the key of every other wallet or other day (days being
  strings of one length, \<open>YYYY-MM-DD\<close>, distinct pairs have distinct keys).
\<close>

theorem validation_frame:
  assumes "validateTradingGuardrails w p s = (res, s')"
  shows "(\<forall>k. k \<noteq> trackerKey (walletAddress p) (today w) \<longrightarrow>
            dailyVolumeTracker s' k = dailyVolumeTracker s k) \<and>
         (\<forall>W D. length D = length (today w) \<and> (W, D) \<noteq> (walletAddress p, today w) \<longrightarrow>
            dailyVolumeTracker s' (trackerKey W D) = dailyVolumeTracker s (trackerKey W D))"
proof (intro conjI allI impI)
  fix k
  assume "k \<noteq> trackerKey (walletAddress p) (today w)"
  then show "dailyVolumeTracker s' k = dailyVolumeTracker s k"
    by (rule guardrails_frame[OF assms])
next
  fix W D
  assume other: "length D = length (today w) \<and> (W, D) \<noteq> (walletAddress p, today w)"
  then have "trackerKey W D \<noteq> trackerKey (walletAddress p) (today w)"
    by (simp add: trackerKey_inj)
  then show "dailyVolumeTracker s' (trackerKey W D) = dailyVolumeTracker s (trackerKey W D)"
    by (rule guardrails_frame[OF assms])
qed

theorem validation_frame_witness:
  "length ''2024-04-30'' = length (today exampleWorld) \<and>
   (WALLET, ''2024-04-30'') \<noteq> (walletAddress oneEther, today exampleWorld) \<and>
   (OTHER_WALLET, ''2024-05-01'') \<noteq> (walletAddress oneEther, today exampleWorld) \<and>
   dailyVolumeTracker (snd (validateTradingGuardrails exampleWorld oneEther ledgerOthers))
     (trackerKey WALLET ''2024-04-30'') = Some \<lparr>date = ''2024-04-30'', volume = Num 7000\<rparr> \<and>
   dailyVolumeTracker (snd (validateTradingGuardrails exampleWorld oneEther ledgerOthers))
     (trackerKey OTHER_WALLET ''2024-05-01'') = Some \<lparr>date = ''2024-05-01'', volume = Num 1234\<rparr> \<and>
   dailyVolumeTracker ledgerOthers (trackerKey WALLET ''2024-05-01'') = None \<and>
   dailyVolumeTracker (snd (validateTradingGuardrails exampleWorld oneEther ledgerOthers))
     (trackerKey WALLET ''2024-05-01'') = Some \<lparr>date = ''2024-05-01'', volume = Num 2000\<rparr>"
proof -
  have day: "today exampleWorld = ''2024-05-01''"
    by (simp add: today_def exampleWorld_def)
  have len: "length ''2024-04-30'' = length (today exampleWorld)"
    by (simp add: day)
  have d1: "(WALLET, ''2024-04-30'') \<noteq> (walletAddress oneEther, today exampleWorld)"
    by (simp add: day)
  have d2: "(OTHER_WALLET, ''2024-05-01'') \<noteq> (walletAddress oneEther, today exampleWorld)"
    by (simp add: day oneEther_def WALLET_def OTHER_WALLET_def)
  note frame = validation_frame[OF surjective_pairing,
      where w = exampleWorld and p = oneEther and s = ledgerOthers,
      THEN conjunct2, rule_format]
  have before1: "dailyVolumeTracker ledgerOthers (trackerKey WALLET ''2024-04-30'') =
      Some \<lparr>date = ''2024-04-30'', volume = Num 7000\<rparr>"
    by (simp add: ledgerOthers_def trackerKey_def WALLET_def OTHER_WALLET_def)
  have before2: "dailyVolumeTracker ledgerOthers (trackerKey OTHER_WALLET ''2024-05-01'') =
      Some \<lparr>date = ''2024-05-01'', volume = Num 1234\<rparr>"
    by (simp add: ledgerOthers_def trackerKey_def WALLET_def OTHER_WALLET_def)
  have before3: "dailyVolumeTracker ledgerOthers (trackerKey WALLET ''2024-05-01'') = None"
    by (simp add: ledgerOthers_def trackerKey_def WALLET_def OTHER_WALLET_def)
  have after3: "dailyVolumeTracker (snd (validateTradingGuardrails exampleWorld oneEther ledgerOthers))
     (trackerKey WALLET ''2024-05-01'') = Some \<lparr>date = ''2024-05-01'', volume = Num 2000\<rparr>"
    by (simp add: model_defs example_arith example_defs)
  from frame[of "''2024-04-30''" WALLET] len d1 before1
  have after1: "dailyVolumeTracker (snd (validateTradingGuardrails exampleWorld oneEther ledgerOthers))
     (trackerKey WALLET ''2024-04-30'') = Some \<lparr>date = ''2024-04-30'', volume = Num 7000\<rparr>"
    by simp
  from frame[of "''2024-05-01''" OTHER_WALLET] d2 before2
  have after2: "dailyVolumeTracker (snd (validateTradingGuardrails exampleWorld oneEther ledgerOthers))
     (trackerKey OTHER_WALLET ''2024-05-01'') = Some \<lparr>date = ''2024-05-01'', volume = Num 1234\<rparr>"
    by (simp add: day)
  from len d1 d2 after1 after2 before3 after3 show ?thesis by blast
qed

section \<open>The price used for the volume check\<close>

text \<open>
  Claim C10: the price of \<open>tokenIn\<close> falls back to 1 not only when the price request
  fails. When the request succeeds and the answer has no entry under the lower-cased
  \<open>tokenIn\<close> address, or has one whose price is 0, the call behaves exactly as if the
  oracle had quoted 1 for the token, and a validation that passes reports, and adds to the
  running total on the ledger, the trade value \<open>Number(amountIn) * 1 / 1e18\<close>.
\<close>

theorem price_defaults_to_one:
  assumes "axios_get w [tokenIn p, tokenOut p] = Inr m"
      and "m (toLowerCase (tokenIn p)) = None \<or>
           (\<exists>tp. m (toLowerCase (tokenIn p)) = Some tp \<and> usd tp = Num 0)"
  shows "validateTradingGuardrails w p s =
           validateTradingGuardrails
             (w\<lparr>axios_get := \<lambda>_. Inr [toLowerCase (tokenIn p) \<mapsto> \<lparr>usd = Num 1\<rparr>]\<rparr>) p s \<and>
         (\<forall>r s'. validateTradingGuardrails w p s = (Inr r, s') \<and> isValid r \<longrightarrow>
            (\<exists>n sd vd ts. BigInt w (amountIn p) = Inr n \<and>
               details r = Some (Validated sd vd (tradeValueOf n (Num 1)) ts) \<and>
               runningTotal w (walletAddress p) s' =
                 js_add (runningTotal w (walletAddress p) s) (tradeValueOf n (Num 1))))"
proof (intro conjI allI impI)
  have price: "tokenInPrice m (tokenIn p) = Num 1"
    using assms(2) by (auto simp: tokenInPrice_def)
  let ?w' = "w\<lparr>axios_get := \<lambda>_. Inr [toLowerCase (tokenIn p) \<mapsto> \<lparr>usd = Num 1\<rparr>]\<rparr>"
  have slip: "validateSlippage ?w' = validateSlippage w"
    by (simp add: fun_eq_iff validateSlippage_def maxSlippageBps_def)
  have verdict: "whitelistVerdict ?w' = whitelistVerdict w"
    by (simp add: fun_eq_iff whitelistVerdict_def)
  have queries: "whitelistCalls ?w' = whitelistCalls w"
    by (simp add: fun_eq_iff whitelistCalls_def)
  have lim: "maxDailyVolumeUsd ?w' = maxDailyVolumeUsd w"
    by (simp add: maxDailyVolumeUsd_def)
  have day: "today ?w' = today w"
    by (simp add: today_def)
  have vol: "validateDailyVolumeLimit ?w' = validateDailyVolumeLimit w"
    unfolding fun_eq_iff validateDailyVolumeLimit_def lim day by simp
  have quoted: "tokenInPrice (pricesOf w [tokenIn p, tokenOut p]) (tokenIn p) = Num 1"
    using assms(1) price by (simp add: pricesOf_def)
  have quoted': "tokenInPrice (pricesOf ?w' [tokenIn p, tokenOut p]) (tokenIn p) = Num 1"
    by (simp add: pricesOf_def tokenInPrice_def)
  show "validateTradingGuardrails w p s = validateTradingGuardrails ?w' p s"
    by (simp add: guardrails_unfold slip verdict queries vol quoted quoted'
          split: sum.splits prod.splits)
  fix r s'
  assume run: "validateTradingGuardrails w p s = (Inr r, s') \<and> isValid r"
  with quoted
  show "\<exists>n sd vd ts. BigInt w (amountIn p) = Inr n \<and>
               details r = Some (Validated sd vd (tradeValueOf n (Num 1)) ts) \<and>
               runningTotal w (walletAddress p) s' =
                 js_add (runningTotal w (walletAddress p) s) (tradeValueOf n (Num 1))"
    by (auto simp: guardrails_unfold validateSlippage_def
          split: if_splits sum.splits prod.splits dest!: runningTotal_after(5))
qed

theorem price_defaults_to_one_witness:
  "axios_get unquotedWorld [tokenIn oneEther, tokenOut oneEther] = Inr Map.empty \<and>
   (Map.empty :: string \<rightharpoonup> TokenPrice) (toLowerCase (tokenIn oneEther)) = None \<and>
   BigInt unquotedWorld (amountIn oneEther) = Inr 1000000000000000000 \<and>
   fst (validateTradingGuardrails unquotedWorld oneEther emptyState) =
     Inr \<lparr>isValid = True, reason = None,
          details = Some (Validated (Some (SlippageMax 50 300))
                      (Some (VolumeDetails (Num 0) (Num 1) (Num 1) (Num 10000))) (Num 1)
                      ''2024-05-01T12:00:00.000Z'')\<rparr> \<and>
   runningTotal unquotedWorld WALLET
     (snd (validateTradingGuardrails unquotedWorld oneEther emptyState)) = Num 1 \<and>
   fst (validateTradingGuardrails zeroQuoteWorld oneEther emptyState) =
     Inr \<lparr>isValid = True, reason = None,
          details = Some (Validated (Some (SlippageMax 50 300))
                      (Some (VolumeDetails (Num 0) (Num 1) (Num 1) (Num 10000))) (Num 1)
                      ''2024-05-01T12:00:00.000Z'')\<rparr>"
proof -
  have answered: "axios_get unquotedWorld [tokenIn oneEther, tokenOut oneEther] = Inr Map.empty"
    by (simp add: unquotedWorld_def)
  have missing: "(Map.empty :: string \<rightharpoonup> TokenPrice) (toLowerCase (tokenIn oneEther)) = None"
    by simp
  have parsed: "BigInt unquotedWorld (amountIn oneEther) = Inr 1000000000000000000"
    by (simp add: example_defs)
  have res: "fst (validateTradingGuardrails unquotedWorld oneEther emptyState) =
     Inr \<lparr>isValid = True, reason = None,
          details = Some (Validated (Some (SlippageMax 50 300))
                      (Some (VolumeDetails (Num 0) (Num 1) (Num 1) (Num 10000))) (Num 1)
                      ''2024-05-01T12:00:00.000Z'')\<rparr>"
    by (simp add: model_defs example_arith example_defs)
  have zero: "fst (validateTradingGuardrails zeroQuoteWorld oneEther emptyState) =
     Inr \<lparr>isValid = True, reason = None,
          details = Some (Validated (Some (SlippageMax 50 300))
                      (Some (VolumeDetails (Num 0) (Num 1) (Num 1) (Num 10000))) (Num 1)
                      ''2024-05-01T12:00:00.000Z'')\<rparr>"
    by (simp add: model_defs example_arith example_defs)
  have before: "runningTotal unquotedWorld (walletAddress oneEther) emptyState = Num 0"
    by (simp add: runningTotal_def emptyState_def)
  have wallet: "walletAddress oneEther = WALLET"
    by (simp add: oneEther_def)
  note main = price_defaults_to_one[where w = unquotedWorld and p = oneEther
      and s = emptyState and m = Map.empty, OF answered, THEN conjunct2, rule_format,
      where r = "\<lparr>isValid = True, reason = None,
          details = Some (Validated (Some (SlippageMax 50 300))
                      (Some (VolumeDetails (Num 0) (Num 1) (Num 1) (Num 10000))) (Num 1)
                      ''2024-05-01T12:00:00.000Z'')\<rparr>"
      and s' = "snd (validateTradingGuardrails unquotedWorld oneEther emptyState)"]
  from main res parsed before wallet
  have total: "runningTotal unquotedWorld WALLET
     (snd (validateTradingGuardrails unquotedWorld oneEther emptyState)) = Num 1"
    by (auto simp: prod_eq_iff example_arith)
  from answered missing parsed res total zero show ?thesis by blast
qed

section \<open>The minimum output of a swap\<close>

text \<open>
  Claim C6: the minimum output is computed in two stages. \<open>calculateMinAmountOut\<close>
  multiplies the expected output by \<open>10000 - slippageBps\<close> and divides by 10000; at 300
  basis points and an expected output of 1000000 it returns 970000. Applied to the expected
  output \<open>amountIn * 98 / 100\<close> it agrees with the specification's two-stage formula
  (for a non-negative amount and at most 10000 basis points, where division towards zero is
  integer division), and this is the \<open>amountOutMinimum\<close> of every swap that
  \<open>executeSwap\<close> submits.
\<close>

theorem min_amount_out_two_stage:
  "calculateMinAmountOut 1000000 300 = 970000 \<and>
   calculateMinAmountOut expected bps = bigint_div (expected * (10000 - bps)) 10000 \<and>
   (0 \<le> amount \<and> bps \<le> 10000 \<longrightarrow>
      calculateMinAmountOut (bigint_div (amount * 98) 100) bps = specMinOut amount bps) \<and>
   (executeSwap w q s = (res, s') \<and> SwapTx router sp \<in> set (calls s') \<and>
    SwapTx router sp \<notin> set (calls s) \<longrightarrow>
      (\<exists>n. BigInt w (amountIn q) = Inr n \<and> 0 < n \<and>
           amountOutMinimum sp =
             calculateMinAmountOut (bigint_div (n * 98) 100) (slippageBps q)))"
proof (intro conjI impI)
  show "calculateMinAmountOut 1000000 300 = 970000"
    by (simp add: calculateMinAmountOut_def bigint_div_def)
  show "calculateMinAmountOut expected bps = bigint_div (expected * (10000 - bps)) 10000"
    by (simp add: calculateMinAmountOut_def)
next
  assume range: "0 \<le> amount \<and> bps \<le> 10000"
  then have expected: "bigint_div (amount * 98) 100 = amount * 98 div 100"
    by (simp add: bigint_div_nonneg)
  have "0 \<le> amount * 98 div 100 * (10000 - bps)"
    using range by (simp add: pos_imp_zdiv_nonneg_iff)
  then show "calculateMinAmountOut (bigint_div (amount * 98) 100) bps = specMinOut amount bps"
    by (simp add: calculateMinAmountOut_def specMinOut_def expected bigint_div_nonneg)
next
  assume "executeSwap w q s = (res, s') \<and> SwapTx router sp \<in> set (calls s') \<and>
    SwapTx router sp \<notin> set (calls s)"
  then obtain n where "BigInt w (amountIn q) = Inr n" "0 < n"
    "sp = ExactInputSingleParams (tokenIn q) (tokenOut q) 3000 (recipient q)
                  (Date_now w div 1000 + 600) n
                  (calculateMinAmountOut (bigint_div (n * 98) 100) (slippageBps q)) 0"
    using executeSwap_submitted by blast
  then show "\<exists>n. BigInt w (amountIn q) = Inr n \<and> 0 < n \<and>
           amountOutMinimum sp =
             calculateMinAmountOut (bigint_div (n * 98) 100) (slippageBps q)"
    by auto
qed

theorem min_amount_out_two_stage_witness:
  "(0::int) \<le> 51 \<and> (300::int) \<le> 10000 \<and>
   calculateMinAmountOut (bigint_div (51 * 98) 100) 300 = 47 \<and>
   specMinOut 51 300 = 47 \<and>
   (51 * 98 * (10000 - 300)) div 1000000 = (48::int) \<and>
   SwapTx ROUTER oneEtherSwapTx
     \<in> set (calls (snd (executeSwap exampleWorld oneEtherSwap emptyState))) \<and>
   SwapTx ROUTER oneEtherSwapTx \<notin> set (calls emptyState) \<and>
   BigInt exampleWorld (amountIn oneEtherSwap) = Inr 1000000000000000000 \<and>
   amountOutMinimum oneEtherSwapTx =
     calculateMinAmountOut (bigint_div (1000000000000000000 * 98) 100)
       (slippageBps oneEtherSwap) \<and>
   amountOutMinimum oneEtherSwapTx = 975100000000000000"
proof -
  note main = min_amount_out_two_stage[where amount = 51 and bps = 300 and expected = 0
      and w = exampleWorld and q = oneEtherSwap and s = emptyState
      and res = "fst (executeSwap exampleWorld oneEtherSwap emptyState)"
      and s' = "snd (executeSwap exampleWorld oneEtherSwap emptyState)"
      and router = ROUTER and sp = oneEtherSwapTx]
  have submitted: "SwapTx ROUTER oneEtherSwapTx
     \<in> set (calls (snd (executeSwap exampleWorld oneEtherSwap emptyState)))"
    by (simp add: swap_defs model_defs example_arith example_defs)
  have fresh: "SwapTx ROUTER oneEtherSwapTx \<notin> set (calls emptyState)"
    by (simp add: emptyState_def)
  have parsed: "BigInt exampleWorld (amountIn oneEtherSwap) = Inr 1000000000000000000"
    by (simp add: example_defs)
  have range: "(0::int) \<le> 51 \<and> (300::int) \<le> 10000"
    by simp
  from main range
  have staged: "calculateMinAmountOut (bigint_div (51 * 98) 100) 300 = specMinOut 51 300"
    by blast
  have spec: "specMinOut 51 300 = 47"
    by (simp add: specMinOut_def)
  from main submitted fresh
  have "\<exists>n. BigInt exampleWorld (amountIn oneEtherSwap) = Inr n \<and> 0 < n \<and>
           amountOutMinimum oneEtherSwapTx =
             calculateMinAmountOut (bigint_div (n * 98) 100) (slippageBps oneEtherSwap)"
    by (metis surjective_pairing)
  with parsed
  have submittedMin: "amountOutMinimum oneEtherSwapTx =
     calculateMinAmountOut (bigint_div (1000000000000000000 * 98) 100)
       (slippageBps oneEtherSwap)"
    by auto
  have val: "amountOutMinimum oneEtherSwapTx = 975100000000000000"
    by (simp add: oneEtherSwapTx_def)
  have combined: "(51 * 98 * (10000 - 300)) div 1000000 = (48::int)"
    by simp
  from range staged spec combined submitted fresh parsed submittedMin val show ?thesis
    by simp
qed

section \<open>A confirmed swap without a transfer log\<close>

text \<open>
  Claim C7: when \<open>executeSwap\<close> has submitted a swap, the router has confirmed it with
  a receipt, and no log of the receipt has the transfer topic first, the result is a
  success with \<open>amountOut = '0'\<close> (and an effective slippage of 0), carrying the hash and
  the gas used of the receipt.
\<close>

theorem missing_transfer_log_still_success:
  assumes "executeSwap w q s = (res, s')"
      and "SwapTx router sp \<in> set (calls s')" and "SwapTx router sp \<notin> set (calls s)"
      and "exactInputSingle w router sp = Inr rc"
      and "\<forall>l \<in> set (logs rc). \<not> isTransferLog l"
  shows "res = Inr \<lparr>success = True, txHash = Some (hash rc), amountOut = Some ''0'',
                    gasUsed = map_option toString (receipt_gasUsed rc),
                    effectiveSlippage = Some (Num 0), error = None\<rparr>"
proof -
  have "find isTransferLog (logs rc) = None"
    using assms(5) by (simp add: find_None_iff)
  with executeSwap_submitted[OF assms(1-3)] assms(4) show ?thesis by blast
qed

theorem missing_transfer_log_still_success_witness:
  "SwapTx ROUTER oneEtherSwapTx
     \<in> set (calls (snd (executeSwap approvalOnlyWorld oneEtherSwap emptyState))) \<and>
   SwapTx ROUTER oneEtherSwapTx \<notin> set (calls emptyState) \<and>
   exactInputSingle approvalOnlyWorld ROUTER oneEtherSwapTx =
     Inr \<lparr>hash = ''0xb2'', receipt_gasUsed = Some 150000, logs = [approvalLog]\<rparr> \<and>
   \<not> isTransferLog approvalLog \<and>
   fst (executeSwap approvalOnlyWorld oneEtherSwap emptyState) =
     Inr \<lparr>success = True, txHash = Some ''0xb2'', amountOut = Some ''0'',
          gasUsed = Some ''150000'', effectiveSlippage = Some (Num 0), error = None\<rparr>"
proof -
  have submitted: "SwapTx ROUTER oneEtherSwapTx
     \<in> set (calls (snd (executeSwap approvalOnlyWorld oneEtherSwap emptyState)))"
    by (simp add: swap_defs model_defs example_arith example_defs)
  have fresh: "SwapTx ROUTER oneEtherSwapTx \<notin> set (calls emptyState)"
    by (simp add: emptyState_def)
  have confirmed: "exactInputSingle approvalOnlyWorld ROUTER oneEtherSwapTx =
     Inr \<lparr>hash = ''0xb2'', receipt_gasUsed = Some 150000, logs = [approvalLog]\<rparr>"
    by (simp add: approvalOnlyWorld_def)
  have other: "\<not> isTransferLog approvalLog"
    by (simp add: isTransferLog_def approvalLog_def TRANSFER_TOPIC_def)
  then have none: "\<forall>l \<in> set (logs \<lparr>hash = ''0xb2'', receipt_gasUsed = Some 150000,
      logs = [approvalLog]\<rparr>). \<not> isTransferLog l"
    by simp
  from missing_transfer_log_still_success[OF surjective_pairing submitted fresh confirmed none]
  have "fst (executeSwap approvalOnlyWorld oneEtherSwap emptyState) =
     Inr \<lparr>success = True, txHash = Some ''0xb2'', amountOut = Some ''0'',
          gasUsed = Some ''150000'', effectiveSlippage = Some (Num 0), error = None\<rparr>"
    by (simp add: toString_def)
  with submitted fresh confirmed other show ?thesis by simp
qed

section \<open>Failures are results\<close>

text \<open>
  Both functions wrap their whole body in \<open>try\<close>/\<open>catch\<close>, and the handler returns a
  result. The lemmas below follow each fault of a collaborator to the result it ends in.
\<close>

lemma guardrails_total:
  "\<exists>r s'. validateTradingGuardrails w p s = (Inr r, s') \<and> (\<not> isValid r \<longrightarrow> reason r \<noteq> None)"
proof -
  obtain res s' where run: "validateTradingGuardrails w p s = (res, s')"
    by (cases "validateTradingGuardrails w p s")
  from guardrails_facts[OF run] run show ?thesis by blast
qed

lemma guardrails_catch:
  "validateTradingGuardrails_try w p s = (Inl e, s1) \<Longrightarrow>
   validateTradingGuardrails w p s =
     (Inr \<lparr>isValid = False, reason = Some ''Validation error occurred'',
           details = Some (ErrorDetails (errorMessage e))\<rparr>, s1)"
  by (simp add: validateTradingGuardrails_def try_catch_def ret_def)

lemma guardrails_parse_fault:
  assumes "isValid (validateSlippage w (slippageBps p))"
      and "falsy (TOKEN_WHITELIST_CONTRACT w) \<or>
           isWhitelisted w (tokenIn p) = Inr True \<and> isWhitelisted w (tokenOut p) = Inr True"
      and "BigInt w (amountIn p) = Inl e"
  shows "fst (validateTradingGuardrails w p s) =
     Inr \<lparr>isValid = False, reason = Some ''Validation error occurred'',
          details = Some (ErrorDetails (errorMessage e))\<rparr>"
  using assms by (auto simp: guardrails_run Let_def whitelistVerdict_def)

lemma guardrails_whitelist_fault:
  assumes "isValid (validateSlippage w (slippageBps p))"
      and "\<not> falsy (TOKEN_WHITELIST_CONTRACT w)"
      and "isWhitelisted w (tokenIn p) = Inl e \<or> isWhitelisted w (tokenOut p) = Inl e"
  shows "fst (validateTradingGuardrails w p s) =
     Inr \<lparr>isValid = False, reason = Some ''One or both tokens not whitelisted'',
          details = Some (TokenPair (tokenIn p) (tokenOut p))\<rparr>"
  using assms by (auto simp: guardrails_run Let_def whitelistVerdict_def)

lemma guardrails_price_fault:
  assumes "axios_get w [tokenIn p, tokenOut p] = Inl e"
  shows "validateTradingGuardrails w p s =
     validateTradingGuardrails
       (w\<lparr>axios_get := \<lambda>ts. Inr (defaultPrices [tokenIn p, tokenOut p])\<rparr>) p s"
proof -
  let ?w' = "w\<lparr>axios_get := \<lambda>ts. Inr (defaultPrices [tokenIn p, tokenOut p])\<rparr>"
  have slip: "validateSlippage ?w' = validateSlippage w"
    by (simp add: fun_eq_iff validateSlippage_def maxSlippageBps_def)
  have verdict: "whitelistVerdict ?w' = whitelistVerdict w"
    by (simp add: fun_eq_iff whitelistVerdict_def)
  have queries: "whitelistCalls ?w' = whitelistCalls w"
    by (simp add: fun_eq_iff whitelistCalls_def)
  have lim: "maxDailyVolumeUsd ?w' = maxDailyVolumeUsd w"
    by (simp add: maxDailyVolumeUsd_def)
  have day: "today ?w' = today w"
    by (simp add: today_def)
  have vol: "validateDailyVolumeLimit ?w' = validateDailyVolumeLimit w"
    unfolding fun_eq_iff validateDailyVolumeLimit_def lim day by simp
  have prices: "pricesOf ?w' [tokenIn p, tokenOut p] = pricesOf w [tokenIn p, tokenOut p]"
    using assms by (simp add: pricesOf_def)
  show ?thesis
    by (simp add: guardrails_unfold slip verdict queries vol prices
          split: sum.splits prod.splits)
qed

lemma executeSwap_total:
  "\<exists>r s'. executeSwap w q s = (Inr r, s') \<and> (\<not> success r \<longrightarrow> error r \<noteq> None) \<and>
            (falsy (UNISWAP_V3_ROUTER w) \<longrightarrow> \<not> success r)"
  by (auto simp: executeSwap_def executeSwap_try_def try_catch_def await_def ret_def throw_def
        request_def failure_def Let_def split: if_splits sum.splits prod.splits)

lemma executeSwap_catch:
  "executeSwap_try w q s = (Inl e, s1) \<Longrightarrow>
   executeSwap w q s =
     (Inr \<lparr>success = False, txHash = None, amountOut = None, gasUsed = None,
           effectiveSlippage = None, error = Some (errorMessage e)\<rparr>, s1)"
  by (simp add: executeSwap_def try_catch_def ret_def failure_def)

lemma executeSwap_connect_fault:
  "litNodeClient_connect w = Inl e \<Longrightarrow>
   executeSwap w q s =
     (Inr \<lparr>success = False, txHash = None, amountOut = None, gasUsed = None,
           effectiveSlippage = None,
           error = Some (''Lit wallet initialization failed: '' @ errorMessage e)\<rparr>,
      s\<lparr>calls := calls s @ [LitConnect]\<rparr>)"
  by (simp add: executeSwap_def executeSwap_try_def initializeLitWallet_def try_catch_def
        await_def ret_def throw_def request_def failure_def errorMessage_def)

lemma executeSwap_init_fault:
  "litNodeClient_connect w = Inr () \<Longrightarrow> \<not> falsy (LIT_PKP_PUBLIC_KEY w) \<Longrightarrow>
   pkpWallet_init w = Inl e \<Longrightarrow>
   executeSwap w q s =
     (Inr \<lparr>success = False, txHash = None, amountOut = None, gasUsed = None,
           effectiveSlippage = None,
           error = Some (''Lit wallet initialization failed: '' @ errorMessage e)\<rparr>,
      s\<lparr>calls := calls s @ [LitConnect, PkpInit]\<rparr>)"
  by (simp add: executeSwap_def executeSwap_try_def initializeLitWallet_def try_catch_def
        await_def ret_def throw_def request_def failure_def errorMessage_def)

lemma executeSwap_policy_rejection:
  assumes "litNodeClient_connect w = Inr ()" and "\<not> falsy (LIT_PKP_PUBLIC_KEY w)"
      and "pkpWallet_init w = Inr ()" and "pkpWallet_getAddress w = Inr a"
      and "validateTradingGuardrails w
             \<lparr>tokenIn = tokenIn q, tokenOut = tokenOut q, amountIn = amountIn q,
              slippageBps = slippageBps q, walletAddress = a\<rparr>
             (s\<lparr>calls := calls s @ [LitConnect, PkpInit, GetAddress, GetAddress]\<rparr>) =
           (Inr rv, sb)"
      and "\<not> isValid rv"
  shows "executeSwap w q s =
     (Inr \<lparr>success = False, txHash = None, amountOut = None, gasUsed = None,
           effectiveSlippage = None,
           error = Some (''Policy validation failed: '' @
                     (case reason rv of None \<Rightarrow> ''undefined'' | Some x \<Rightarrow> x))\<rparr>, sb)"
  using assms
  by (simp add: executeSwap_def executeSwap_try_def initializeLitWallet_def try_catch_def
        await_def ret_def throw_def request_def failure_def)

lemma executeSwap_success_path:
  assumes "executeSwap w q s = (Inr r, s')" and "success r"
  shows "error r = None \<and>
         (\<exists>n. BigInt w (amountIn q) = Inr n \<and>
            SwapTx (the (UNISWAP_V3_ROUTER w))
              (ExactInputSingleParams (tokenIn q) (tokenOut q) 3000 (recipient q)
                 (Date_now w div 1000 + 600) n
                 (calculateMinAmountOut (bigint_div (n * 98) 100) (slippageBps q)) 0)
              \<in> set (calls s') \<and>
            (\<exists>rc. exactInputSingle w (the (UNISWAP_V3_ROUTER w))
                    (ExactInputSingleParams (tokenIn q) (tokenOut q) 3000 (recipient q)
                       (Date_now w div 1000 + 600) n
                       (calculateMinAmountOut (bigint_div (n * 98) 100) (slippageBps q)) 0) =
                    Inr rc \<and>
                  txHash r = Some (hash rc)))"
  using assms
  by (auto simp: executeSwap_def executeSwap_try_def try_catch_def await_def ret_def throw_def
        request_def failure_def Let_def split: if_splits sum.splits prod.splits)

lemma executeSwap_success:
  assumes "executeSwap w q s = (Inr r, s')" and "success r"
  shows "error r = None \<and>
         (\<exists>router sp rc. SwapTx router sp \<in> set (calls s') \<and>
            exactInputSingle w router sp = Inr rc \<and> txHash r = Some (hash rc))"
  using executeSwap_success_path[OF assms] by blast

lemma guardrails_valid_needs:
  assumes "validateTradingGuardrails w p s = (Inr r, s')" and "isValid r"
  shows "isValid (validateSlippage w (slippageBps p)) \<and>
         (falsy (TOKEN_WHITELIST_CONTRACT w) \<or>
          isWhitelisted w (tokenIn p) = Inr True \<and> isWhitelisted w (tokenOut p) = Inr True) \<and>
         (\<exists>n. BigInt w (amountIn p) = Inr n \<and> 0 < n) \<and> tokenIn p \<noteq> tokenOut p"
  using assms(2) assms(1)[unfolded guardrails_run]
  by (auto simp: Let_def whitelistVerdict_def split: if_splits sum.splits)

lemma executeSwap_success_needs:
  assumes "executeSwap w q s = (Inr r, s')" and "success r"
  shows "litNodeClient_connect w = Inr () \<and> \<not> falsy (LIT_PKP_PUBLIC_KEY w) \<and>
         pkpWallet_init w = Inr () \<and> \<not> falsy (UNISWAP_V3_ROUTER w) \<and>
         (\<exists>a n. pkpWallet_getAddress w = Inr a \<and> BigInt w (amountIn q) = Inr n \<and>
            (\<exists>rv sb. validateTradingGuardrails w
                      \<lparr>tokenIn = tokenIn q, tokenOut = tokenOut q, amountIn = amountIn q,
                       slippageBps = slippageBps q, walletAddress = a\<rparr>
                      (s\<lparr>calls := calls s @ [LitConnect, PkpInit, GetAddress, GetAddress]\<rparr>) =
                    (Inr rv, sb) \<and> isValid rv) \<and>
            (\<exists>d. erc20_decimals w (tokenIn q) = Inr d) \<and>
            (\<exists>b. erc20_balanceOf w (tokenIn q) a = Inr b \<and> n \<le> b) \<and>
            (\<exists>h. erc20_approve w (tokenIn q) (the (UNISWAP_V3_ROUTER w)) n = Inr h))"
  using assms
  by (auto simp: executeSwap_def executeSwap_try_def initializeLitWallet_def getTokenInfo_def
        promise_all2_def try_catch_def await_def ret_def throw_def
        request_def failure_def Let_def split: if_splits sum.splits prod.splits)

lemma executeSwap_address_fault:
  "litNodeClient_connect w = Inr () \<Longrightarrow> \<not> falsy (LIT_PKP_PUBLIC_KEY w) \<Longrightarrow>
   pkpWallet_init w = Inr () \<Longrightarrow> pkpWallet_getAddress w = Inl e \<Longrightarrow>
   executeSwap w q s =
     (Inr \<lparr>success = False, txHash = None, amountOut = None, gasUsed = None,
           effectiveSlippage = None,
           error = Some (''Lit wallet initialization failed: '' @ errorMessage e)\<rparr>,
      s\<lparr>calls := calls s @ [LitConnect, PkpInit, GetAddress]\<rparr>)"
  by (simp add: executeSwap_def executeSwap_try_def initializeLitWallet_def try_catch_def
        await_def ret_def throw_def request_def failure_def errorMessage_def)

lemma executeSwap_no_router:
  assumes "litNodeClient_connect w = Inr ()" and "\<not> falsy (LIT_PKP_PUBLIC_KEY w)"
      and "pkpWallet_init w = Inr ()" and "pkpWallet_getAddress w = Inr a"
      and "validateTradingGuardrails w
             \<lparr>tokenIn = tokenIn q, tokenOut = tokenOut q, amountIn = amountIn q,
              slippageBps = slippageBps q, walletAddress = a\<rparr>
             (s\<lparr>calls := calls s @ [LitConnect, PkpInit, GetAddress, GetAddress]\<rparr>) =
           (Inr rv, sb)"
      and "isValid rv"
      and "erc20_decimals w (tokenIn q) = Inr d"
      and "erc20_balanceOf w (tokenIn q) a = Inr b"
      and "BigInt w (amountIn q) = Inr n" and "n \<le> b"
      and "falsy (UNISWAP_V3_ROUTER w)"
  shows "executeSwap w q s =
     (Inr \<lparr>success = False, txHash = None, amountOut = None, gasUsed = None,
           effectiveSlippage = None, error = Some ''UNISWAP_V3_ROUTER not configured''\<rparr>,
      sb\<lparr>calls := calls sb @ [DecimalsQuery (tokenIn q), BalanceQuery (tokenIn q) a]\<rparr>)"
  using assms
  by (simp add: executeSwap_def executeSwap_try_def initializeLitWallet_def getTokenInfo_def
        promise_all2_def try_catch_def await_def ret_def throw_def request_def failure_def
        errorMessage_def)

text \<open>
  Claim C8: whatever the input and whatever the collaborators answer or throw,
  \<open>validateTradingGuardrails\<close> returns a \<open>PolicyValidationResult\<close> and
  \<open>executeSwap\<close> returns a \<open>SwapResult\<close>; neither lets an exception escape, and a
  fault ends in a failed result that names it.

  In \<open>validateTradingGuardrails\<close>: an invalid result carries a reason; an exception
  thrown anywhere in the body gives \<open>isValid = false\<close> with the reason
  \<open>Validation error occurred\<close> and the message of the exception, as does an amount that
  \<open>BigInt\<close> cannot read; a whitelist query that throws gives the rejection
  \<open>One or both tokens not whitelisted\<close>; a price request that throws is absorbed, the
  call running as it does when the oracle quotes 1 for both tokens. A result with
  \<open>isValid = true\<close> has passed the slippage check, had both whitelist queries answered
  with true when the contract is configured, and read a positive amount.

  In \<open>executeSwap\<close>: a failed result carries an error message; an exception thrown
  anywhere in the body gives \<open>success = false\<close> with its message; a fault of the wallet
  (connecting, initialising, reading the address) gives
  \<open>Lit wallet initialization failed: \<close> followed by the message; a rejected validation
  gives \<open>Policy validation failed: \<close> followed by its reason; a fault of the approval or
  of the swap submitted in this run gives the message of the fault. A result with
  \<open>success = true\<close> carries no error, and on the way to it every collaborator has
  answered: the wallet, the validation (valid), the token contract (decimals, a sufficient
  balance, the approval) and the router, whose receipt gives the hash.

  A missing router address is no exception to this in the code: it is thrown inside the
  \<open>try\<close> block, after the wallet, policy and balance requests, and ends as a failed
  \<open>SwapResult\<close> with the error \<open>UNISWAP_V3_ROUTER not configured\<close>; no swap succeeds
  without a configured router.
\<close>

theorem failures_are_typed_results:
  "(\<exists>r s'. validateTradingGuardrails w p s = (Inr r, s') \<and>
      (\<not> isValid r \<longrightarrow> reason r \<noteq> None) \<and>
      (isValid r \<longrightarrow>
         isValid (validateSlippage w (slippageBps p)) \<and>
         (falsy (TOKEN_WHITELIST_CONTRACT w) \<or>
          isWhitelisted w (tokenIn p) = Inr True \<and> isWhitelisted w (tokenOut p) = Inr True) \<and>
         (\<exists>n. BigInt w (amountIn p) = Inr n \<and> 0 < n) \<and> tokenIn p \<noteq> tokenOut p)) \<and>
   (\<forall>e s1. validateTradingGuardrails_try w p s = (Inl e, s1) \<longrightarrow>
      validateTradingGuardrails w p s =
        (Inr \<lparr>isValid = False, reason = Some ''Validation error occurred'',
              details = Some (ErrorDetails (errorMessage e))\<rparr>, s1)) \<and>
   (\<forall>e. isValid (validateSlippage w (slippageBps p)) \<and>
        \<not> falsy (TOKEN_WHITELIST_CONTRACT w) \<and>
        (isWhitelisted w (tokenIn p) = Inl e \<or> isWhitelisted w (tokenOut p) = Inl e) \<longrightarrow>
      fst (validateTradingGuardrails w p s) =
        Inr \<lparr>isValid = False, reason = Some ''One or both tokens not whitelisted'',
             details = Some (TokenPair (tokenIn p) (tokenOut p))\<rparr>) \<and>
   (\<forall>e. isValid (validateSlippage w (slippageBps p)) \<and>
        (falsy (TOKEN_WHITELIST_CONTRACT w) \<or>
         isWhitelisted w (tokenIn p) = Inr True \<and> isWhitelisted w (tokenOut p) = Inr True) \<and>
        BigInt w (amountIn p) = Inl e \<longrightarrow>
      fst (validateTradingGuardrails w p s) =
        Inr \<lparr>isValid = False, reason = Some ''Validation error occurred'',
             details = Some (ErrorDetails (errorMessage e))\<rparr>) \<and>
   (\<forall>e. axios_get w [tokenIn p, tokenOut p] = Inl e \<longrightarrow>
      validateTradingGuardrails w p s =
        validateTradingGuardrails
          (w\<lparr>axios_get := \<lambda>ts. Inr (defaultPrices [tokenIn p, tokenOut p])\<rparr>) p s) \<and>
   (\<exists>r s'. executeSwap w q s = (Inr r, s') \<and>
      (\<not> success r \<longrightarrow> error r \<noteq> None) \<and>
      (falsy (UNISWAP_V3_ROUTER w) \<longrightarrow> \<not> success r) \<and>
      (success r \<longrightarrow>
         error r = None \<and>
         litNodeClient_connect w = Inr () \<and> \<not> falsy (LIT_PKP_PUBLIC_KEY w) \<and>
         pkpWallet_init w = Inr () \<and>
         (\<exists>a n. pkpWallet_getAddress w = Inr a \<and> BigInt w (amountIn q) = Inr n \<and>
            (\<exists>rv sb. validateTradingGuardrails w
                      \<lparr>tokenIn = tokenIn q, tokenOut = tokenOut q, amountIn = amountIn q,
                       slippageBps = slippageBps q, walletAddress = a\<rparr>
                      (s\<lparr>calls := calls s @ [LitConnect, PkpInit, GetAddress, GetAddress]\<rparr>) =
                    (Inr rv, sb) \<and> isValid rv) \<and>
            (\<exists>d. erc20_decimals w (tokenIn q) = Inr d) \<and>
            (\<exists>b. erc20_balanceOf w (tokenIn q) a = Inr b \<and> n \<le> b) \<and>
            (\<exists>h. erc20_approve w (tokenIn q) (the (UNISWAP_V3_ROUTER w)) n = Inr h)) \<and>
         (\<exists>router sp rc. SwapTx router sp \<in> set (calls s') \<and>
            exactInputSingle w router sp = Inr rc \<and> txHash r = Some (hash rc)))) \<and>
   (\<forall>e s1. executeSwap_try w q s = (Inl e, s1) \<longrightarrow>
      executeSwap w q s =
        (Inr \<lparr>success = False, txHash = None, amountOut = None, gasUsed = None,
              effectiveSlippage = None, error = Some (errorMessage e)\<rparr>, s1)) \<and>
   (\<forall>e. litNodeClient_connect w = Inl e \<longrightarrow>
      executeSwap w q s =
        (Inr \<lparr>success = False, txHash = None, amountOut = None, gasUsed = None,
              effectiveSlippage = None,
              error = Some (''Lit wallet initialization failed: '' @ errorMessage e)\<rparr>,
         s\<lparr>calls := calls s @ [LitConnect]\<rparr>)) \<and>
   (\<forall>e. litNodeClient_connect w = Inr () \<and> \<not> falsy (LIT_PKP_PUBLIC_KEY w) \<and>
        pkpWallet_init w = Inl e \<longrightarrow>
      executeSwap w q s =
        (Inr \<lparr>success = False, txHash = None, amountOut = None, gasUsed = None,
              effectiveSlippage = None,
              error = Some (''Lit wallet initialization failed: '' @ errorMessage e)\<rparr>,
         s\<lparr>calls := calls s @ [LitConnect, PkpInit]\<rparr>)) \<and>
   (\<forall>e. litNodeClient_connect w = Inr () \<and> \<not> falsy (LIT_PKP_PUBLIC_KEY w) \<and>
        pkpWallet_init w = Inr () \<and> pkpWallet_getAddress w = Inl e \<longrightarrow>
      executeSwap w q s =
        (Inr \<lparr>success = False, txHash = None, amountOut = None, gasUsed = None,
              effectiveSlippage = None,
              error = Some (''Lit wallet initialization failed: '' @ errorMessage e)\<rparr>,
         s\<lparr>calls := calls s @ [LitConnect, PkpInit, GetAddress]\<rparr>)) \<and>
   (\<forall>a rv sb.
      litNodeClient_connect w = Inr () \<and> \<not> falsy (LIT_PKP_PUBLIC_KEY w) \<and>
      pkpWallet_init w = Inr () \<and> pkpWallet_getAddress w = Inr a \<and>
      validateTradingGuardrails w
        \<lparr>tokenIn = tokenIn q, tokenOut = tokenOut q, amountIn = amountIn q,
         slippageBps = slippageBps q, walletAddress = a\<rparr>
        (s\<lparr>calls := calls s @ [LitConnect, PkpInit, GetAddress, GetAddress]\<rparr>) = (Inr rv, sb) \<and>
      \<not> isValid rv \<longrightarrow>
      executeSwap w q s =
        (Inr \<lparr>success = False, txHash = None, amountOut = None, gasUsed = None,
              effectiveSlippage = None,
              error = Some (''Policy validation failed: '' @
                        (case reason rv of None \<Rightarrow> ''undefined'' | Some x \<Rightarrow> x))\<rparr>, sb)) \<and>
   (\<forall>a rv sb d b n.
      litNodeClient_connect w = Inr () \<and> \<not> falsy (LIT_PKP_PUBLIC_KEY w) \<and>
      pkpWallet_init w = Inr () \<and> pkpWallet_getAddress w = Inr a \<and>
      validateTradingGuardrails w
        \<lparr>tokenIn = tokenIn q, tokenOut = tokenOut q, amountIn = amountIn q,
         slippageBps = slippageBps q, walletAddress = a\<rparr>
        (s\<lparr>calls := calls s @ [LitConnect, PkpInit, GetAddress, GetAddress]\<rparr>) = (Inr rv, sb) \<and>
      isValid rv \<and> erc20_decimals w (tokenIn q) = Inr d \<and>
      erc20_balanceOf w (tokenIn q) a = Inr b \<and> BigInt w (amountIn q) = Inr n \<and> n \<le> b \<and>
      falsy (UNISWAP_V3_ROUTER w) \<longrightarrow>
      executeSwap w q s =
        (Inr \<lparr>success = False, txHash = None, amountOut = None, gasUsed = None,
              effectiveSlippage = None, error = Some ''UNISWAP_V3_ROUTER not configured''\<rparr>,
         sb\<lparr>calls := calls sb @ [DecimalsQuery (tokenIn q), BalanceQuery (tokenIn q) a]\<rparr>)) \<and>
   (\<forall>res s' t r n e.
      executeSwap w q s = (res, s') \<and> ApproveTx t r n \<in> set (calls s') \<and>
      ApproveTx t r n \<notin> set (calls s) \<and> erc20_approve w t r n = Inl e \<longrightarrow>
      res = Inr \<lparr>success = False, txHash = None, amountOut = None, gasUsed = None,
                 effectiveSlippage = None, error = Some (errorMessage e)\<rparr>) \<and>
   (\<forall>res s' router sp e.
      executeSwap w q s = (res, s') \<and> SwapTx router sp \<in> set (calls s') \<and>
      SwapTx router sp \<notin> set (calls s) \<and> exactInputSingle w router sp = Inl e \<longrightarrow>
      res = Inr \<lparr>success = False, txHash = None, amountOut = None, gasUsed = None,
                 effectiveSlippage = None, error = Some (errorMessage e)\<rparr>)"
proof (intro conjI allI impI; (elim conjE)?)
  obtain r s' where run: "validateTradingGuardrails w p s = (Inr r, s')"
    using guardrails_total by blast
  from guardrails_total[of w p s] run guardrails_valid_needs[OF run]
  show "\<exists>r s'. validateTradingGuardrails w p s = (Inr r, s') \<and>
      (\<not> isValid r \<longrightarrow> reason r \<noteq> None) \<and>
      (isValid r \<longrightarrow>
         isValid (validateSlippage w (slippageBps p)) \<and>
         (falsy (TOKEN_WHITELIST_CONTRACT w) \<or>
          isWhitelisted w (tokenIn p) = Inr True \<and> isWhitelisted w (tokenOut p) = Inr True) \<and>
         (\<exists>n. BigInt w (amountIn p) = Inr n \<and> 0 < n) \<and> tokenIn p \<noteq> tokenOut p)"
    by auto
next
  obtain r s' where run: "executeSwap w q s = (Inr r, s')"
    using executeSwap_total by blast
  from executeSwap_total[of w q s] run executeSwap_success[OF run]
    executeSwap_success_needs[OF run]
  show "\<exists>r s'. executeSwap w q s = (Inr r, s') \<and>
      (\<not> success r \<longrightarrow> error r \<noteq> None) \<and>
      (falsy (UNISWAP_V3_ROUTER w) \<longrightarrow> \<not> success r) \<and>
      (success r \<longrightarrow>
         error r = None \<and>
         litNodeClient_connect w = Inr () \<and> \<not> falsy (LIT_PKP_PUBLIC_KEY w) \<and>
         pkpWallet_init w = Inr () \<and>
         (\<exists>a n. pkpWallet_getAddress w = Inr a \<and> BigInt w (amountIn q) = Inr n \<and>
            (\<exists>rv sb. validateTradingGuardrails w
                      \<lparr>tokenIn = tokenIn q, tokenOut = tokenOut q, amountIn = amountIn q,
                       slippageBps = slippageBps q, walletAddress = a\<rparr>
                      (s\<lparr>calls := calls s @ [LitConnect, PkpInit, GetAddress, GetAddress]\<rparr>) =
                    (Inr rv, sb) \<and> isValid rv) \<and>
            (\<exists>d. erc20_decimals w (tokenIn q) = Inr d) \<and>
            (\<exists>b. erc20_balanceOf w (tokenIn q) a = Inr b \<and> n \<le> b) \<and>
            (\<exists>h. erc20_approve w (tokenIn q) (the (UNISWAP_V3_ROUTER w)) n = Inr h)) \<and>
         (\<exists>router sp rc. SwapTx router sp \<in> set (calls s') \<and>
            exactInputSingle w router sp = Inr rc \<and> txHash r = Some (hash rc)))"
    by (intro exI[where x = r] exI[where x = s']) simp
qed (blast intro: guardrails_catch guardrails_whitelist_fault guardrails_parse_fault
       guardrails_price_fault executeSwap_catch executeSwap_connect_fault
       executeSwap_init_fault executeSwap_address_fault executeSwap_policy_rejection
       executeSwap_no_router executeSwap_approval
       dest: executeSwap_submitted)+

theorem failures_are_typed_results_witness:
  "litNodeClient_connect litDownWorld = Inl (Error ''connect timeout'') \<and>
   executeSwap litDownWorld oneEtherSwap emptyState =
     (Inr \<lparr>success = False, txHash = None, amountOut = None, gasUsed = None,
           effectiveSlippage = None,
           error = Some ''Lit wallet initialization failed: connect timeout''\<rparr>,
      \<lparr>dailyVolumeTracker = Map.empty, calls = [LitConnect]\<rparr>) \<and>
   isWhitelisted failingWhitelistWorld WETH = Inl (Error ''could not detect network'') \<and>
   fst (validateTradingGuardrails failingWhitelistWorld oneEther emptyState) =
     Inr \<lparr>isValid = False, reason = Some ''One or both tokens not whitelisted'',
          details = Some (TokenPair WETH USDC)\<rparr> \<and>
   fst (executeSwap failingWhitelistWorld oneEtherSwap emptyState) =
     Inr \<lparr>success = False, txHash = None, amountOut = None, gasUsed = None,
          effectiveSlippage = None,
          error = Some ''Policy validation failed: One or both tokens not whitelisted''\<rparr> \<and>
   BigInt exampleWorld ''1.5'' = Inl (Error ''Cannot convert 1.5 to a BigInt'') \<and>
   fst (validateTradingGuardrails exampleWorld notANumber emptyState) =
     Inr \<lparr>isValid = False, reason = Some ''Validation error occurred'',
          details = Some (ErrorDetails ''Cannot convert 1.5 to a BigInt'')\<rparr> \<and>
   axios_get priceDownWorld [WETH, USDC] = Inl (Error ''timeout of 10000ms exceeded'') \<and>
   fst (validateTradingGuardrails priceDownWorld oneEther emptyState) =
     Inr \<lparr>isValid = True, reason = None,
          details = Some (Validated (Some (SlippageMax 50 300))
                      (Some (VolumeDetails (Num 0) (Num 1) (Num 1) (Num 10000))) (Num 1)
                      ''2024-05-01T12:00:00.000Z'')\<rparr> \<and>
   falsy (UNISWAP_V3_ROUTER noRouterWorld) \<and>
   executeSwap noRouterWorld oneEtherSwap emptyState =
     (Inr \<lparr>success = False, txHash = None, amountOut = None, gasUsed = None,
           effectiveSlippage = None, error = Some ''UNISWAP_V3_ROUTER not configured''\<rparr>,
      \<lparr>dailyVolumeTracker =
         [trackerKey WALLET ''2024-05-01'' \<mapsto> \<lparr>date = ''2024-05-01'', volume = Num 2000\<rparr>],
       calls = [LitConnect, PkpInit, GetAddress, GetAddress, PriceQuery [WETH, USDC],
                DecimalsQuery WETH, BalanceQuery WETH WALLET]\<rparr>) \<and>
   erc20_approve approveFailWorld WETH ROUTER 1000000000000000000 =
     Inl (Error ''transaction reverted'') \<and>
   ApproveTx WETH ROUTER 1000000000000000000 \<in>
     set (calls (snd (executeSwap approveFailWorld oneEtherSwap emptyState))) \<and>
   fst (executeSwap approveFailWorld oneEtherSwap emptyState) =
     Inr \<lparr>success = False, txHash = None, amountOut = None, gasUsed = None,
          effectiveSlippage = None, error = Some ''transaction reverted''\<rparr> \<and>
   exactInputSingle swapFailWorld ROUTER oneEtherSwapTx = Inl (Error ''Too little received'') \<and>
   SwapTx ROUTER oneEtherSwapTx \<in>
     set (calls (snd (executeSwap swapFailWorld oneEtherSwap emptyState))) \<and>
   fst (executeSwap swapFailWorld oneEtherSwap emptyState) =
     Inr \<lparr>success = False, txHash = None, amountOut = None, gasUsed = None,
          effectiveSlippage = None, error = Some ''Too little received''\<rparr> \<and>
   fst (executeSwap exampleWorld oneEtherSwap emptyState) =
     Inr \<lparr>success = True, txHash = Some ''0xb2'', amountOut = Some ''0'',
          gasUsed = Some ''150000'', effectiveSlippage = Some (Num 0), error = None\<rparr>"
proof -
  note main = failures_are_typed_results
  have down: "litNodeClient_connect litDownWorld = Inl (Error ''connect timeout'')"
    by (simp add: example_defs)
  from main[where w = litDownWorld and q = oneEtherSwap and s = emptyState,
      THEN conjunct2, THEN conjunct2, THEN conjunct2, THEN conjunct2, THEN conjunct2,
      THEN conjunct2, THEN conjunct2, THEN conjunct1, rule_format, OF down]
  have lit: "executeSwap litDownWorld oneEtherSwap emptyState =
     (Inr \<lparr>success = False, txHash = None, amountOut = None, gasUsed = None,
           effectiveSlippage = None,
           error = Some ''Lit wallet initialization failed: connect timeout''\<rparr>,
      \<lparr>dailyVolumeTracker = Map.empty, calls = [LitConnect]\<rparr>)"
    by (simp add: errorMessage_def emptyState_def)
  have unreachable: "isWhitelisted failingWhitelistWorld WETH =
     Inl (Error ''could not detect network'')"
    by (simp add: example_defs)
  have guard: "isValid (validateSlippage failingWhitelistWorld (slippageBps oneEther)) \<and>
     \<not> falsy (TOKEN_WHITELIST_CONTRACT failingWhitelistWorld) \<and>
     (isWhitelisted failingWhitelistWorld (tokenIn oneEther) =
        Inl (Error ''could not detect network'') \<or>
      isWhitelisted failingWhitelistWorld (tokenOut oneEther) =
        Inl (Error ''could not detect network''))"
    by (simp add: example_defs validateSlippage_def maxSlippageBps_def falsy_def)
  from main[where w = failingWhitelistWorld and p = oneEther and s = emptyState,
      THEN conjunct2, THEN conjunct2, THEN conjunct1, rule_format, OF guard]
  have listed: "fst (validateTradingGuardrails failingWhitelistWorld oneEther emptyState) =
     Inr \<lparr>isValid = False, reason = Some ''One or both tokens not whitelisted'',
          details = Some (TokenPair WETH USDC)\<rparr>"
    by (simp add: oneEther_def)
  have policy: "fst (executeSwap failingWhitelistWorld oneEtherSwap emptyState) =
     Inr \<lparr>success = False, txHash = None, amountOut = None, gasUsed = None,
          effectiveSlippage = None,
          error = Some ''Policy validation failed: One or both tokens not whitelisted''\<rparr>"
    by (simp add: swap_defs model_defs example_defs)
  have unparsed: "BigInt exampleWorld ''1.5'' = Inl (Error ''Cannot convert 1.5 to a BigInt'')"
    by (simp add: example_defs)
  have parse: "fst (validateTradingGuardrails exampleWorld notANumber emptyState) =
     Inr \<lparr>isValid = False, reason = Some ''Validation error occurred'',
          details = Some (ErrorDetails ''Cannot convert 1.5 to a BigInt'')\<rparr>"
    by (simp add: model_defs example_defs errorMessage_def)
  have timeout: "axios_get priceDownWorld [WETH, USDC] =
     Inl (Error ''timeout of 10000ms exceeded'')"
    by (simp add: example_defs)
  have price: "fst (validateTradingGuardrails priceDownWorld oneEther emptyState) =
     Inr \<lparr>isValid = True, reason = None,
          details = Some (Validated (Some (SlippageMax 50 300))
                      (Some (VolumeDetails (Num 0) (Num 1) (Num 1) (Num 10000))) (Num 1)
                      ''2024-05-01T12:00:00.000Z'')\<rparr>"
    by (simp add: model_defs example_arith example_defs)
  have unset: "falsy (UNISWAP_V3_ROUTER noRouterWorld)"
    by (simp add: falsy_def example_defs)
  have router: "executeSwap noRouterWorld oneEtherSwap emptyState =
     (Inr \<lparr>success = False, txHash = None, amountOut = None, gasUsed = None,
           effectiveSlippage = None, error = Some ''UNISWAP_V3_ROUTER not configured''\<rparr>,
      \<lparr>dailyVolumeTracker =
         [trackerKey WALLET ''2024-05-01'' \<mapsto> \<lparr>date = ''2024-05-01'', volume = Num 2000\<rparr>],
       calls = [LitConnect, PkpInit, GetAddress, GetAddress, PriceQuery [WETH, USDC],
                DecimalsQuery WETH, BalanceQuery WETH WALLET]\<rparr>)"
    by (simp add: swap_defs model_defs example_arith example_defs)
  have reverted: "erc20_approve approveFailWorld WETH ROUTER 1000000000000000000 =
     Inl (Error ''transaction reverted'')"
    by (simp add: example_defs)
  have approved: "ApproveTx WETH ROUTER 1000000000000000000 \<in>
     set (calls (snd (executeSwap approveFailWorld oneEtherSwap emptyState)))"
    by (simp add: swap_defs model_defs example_arith example_defs)
  have approve: "fst (executeSwap approveFailWorld oneEtherSwap emptyState) =
     Inr \<lparr>success = False, txHash = None, amountOut = None, gasUsed = None,
          effectiveSlippage = None, error = Some ''transaction reverted''\<rparr>"
    by (simp add: swap_defs model_defs example_arith example_defs)
  have little: "exactInputSingle swapFailWorld ROUTER oneEtherSwapTx =
     Inl (Error ''Too little received'')"
    by (simp add: example_defs)
  have submitted: "SwapTx ROUTER oneEtherSwapTx \<in>
     set (calls (snd (executeSwap swapFailWorld oneEtherSwap emptyState)))"
    by (simp add: swap_defs model_defs example_arith example_defs)
  have swap: "fst (executeSwap swapFailWorld oneEtherSwap emptyState) =
     Inr \<lparr>success = False, txHash = None, amountOut = None, gasUsed = None,
          effectiveSlippage = None, error = Some ''Too little received''\<rparr>"
    by (simp add: swap_defs model_defs example_arith example_defs)
  have good: "fst (executeSwap exampleWorld oneEtherSwap emptyState) =
     Inr \<lparr>success = True, txHash = Some ''0xb2'', amountOut = Some ''0'',
          gasUsed = Some ''150000'', effectiveSlippage = Some (Num 0), error = None\<rparr>"
    by (simp add: swap_defs model_defs example_arith example_defs)
  from down lit unreachable listed policy unparsed parse timeout price unset router reverted
    approved approve little submitted swap good
  show ?thesis by blast
qed

end
